theory Spec2Isabelle
  imports Complex_Main
begin

section \<open>Python strings\<close>

text \<open>
  A Python \<^verbatim>\<open>str\<close> is modelled by its UTF-8 encoding, a \<^typ>\<open>string\<close>. ASCII
  characters are single bytes; the few non-ASCII characters the sources name (bullets,
  the en dash, an arrow) are the byte sequences below. Character classes
  (\<^verbatim>\<open>isupper\<close>, \<^verbatim>\<open>isdigit\<close>, whitespace, \<^verbatim>\<open>lower()\<close>) are the ASCII ones; a non-ASCII
  code point is never a letter, a digit or a space in this model. \<^verbatim>\<open>len\<close> and
  indices count code points, not bytes.
\<close>

definition ord :: "char \<Rightarrow> nat" where
  "ord c = of_char c"

definition is_lower :: "char \<Rightarrow> bool" where
  "is_lower c = (ord CHR ''a'' \<le> ord c \<and> ord c \<le> ord CHR ''z'')"

definition is_upper :: "char \<Rightarrow> bool" where
  "is_upper c = (ord CHR ''A'' \<le> ord c \<and> ord c \<le> ord CHR ''Z'')"

definition is_digit :: "char \<Rightarrow> bool" where
  "is_digit c = (ord CHR ''0'' \<le> ord c \<and> ord c \<le> ord CHR ''9'')"

definition is_space :: "char \<Rightarrow> bool" where
  "is_space c = (ord c = 32 \<or> (9 \<le> ord c \<and> ord c \<le> 13) \<or> (28 \<le> ord c \<and> ord c \<le> 31))"

definition is_alpha :: "char \<Rightarrow> bool" where
  "is_alpha c = (is_lower c \<or> is_upper c)"

definition is_word_char :: "char \<Rightarrow> bool" where
  "is_word_char c = (is_alpha c \<or> is_digit c \<or> c = CHR ''_'')"

text \<open>A continuation byte of a multi-byte UTF-8 sequence (\<^verbatim>\<open>10xxxxxx\<close>).\<close>

definition is_cont :: "char \<Rightarrow> bool" where
  "is_cont c = (128 \<le> ord c \<and> ord c < 192)"

text \<open>ASCII case mapping: the two cases of a letter differ in bit 5 only.\<close>

definition lower_char :: "char \<Rightarrow> char" where
  "lower_char c = (if is_upper c
     then (case c of Char b0 b1 b2 b3 b4 b5 b6 b7 \<Rightarrow> Char b0 b1 b2 b3 b4 True b6 b7) else c)"

definition upper_char :: "char \<Rightarrow> char" where
  "upper_char c = (if is_lower c
     then (case c of Char b0 b1 b2 b3 b4 b5 b6 b7 \<Rightarrow> Char b0 b1 b2 b3 b4 False b6 b7) else c)"

text \<open>The classes on the bits of a character, for evaluation.\<close>

lemma is_lower_bits [code]:
  "is_lower (Char b0 b1 b2 b3 b4 b5 b6 b7) =
     (\<not> b7 \<and> b6 \<and> b5 \<and> (b0 \<or> b1 \<or> b2 \<or> b3 \<or> b4) \<and> \<not> (b4 \<and> b3 \<and> (b2 \<or> (b1 \<and> b0))))"
  by (cases b0; cases b1; cases b2; cases b3; cases b4; cases b5; cases b6; cases b7;
      simp add: is_lower_def ord_def)

lemma is_upper_bits [code]:
  "is_upper (Char b0 b1 b2 b3 b4 b5 b6 b7) =
     (\<not> b7 \<and> b6 \<and> \<not> b5 \<and> (b0 \<or> b1 \<or> b2 \<or> b3 \<or> b4) \<and> \<not> (b4 \<and> b3 \<and> (b2 \<or> (b1 \<and> b0))))"
  by (cases b0; cases b1; cases b2; cases b3; cases b4; cases b5; cases b6; cases b7;
      simp add: is_upper_def ord_def)

lemma is_digit_bits [code]:
  "is_digit (Char b0 b1 b2 b3 b4 b5 b6 b7) =
     (\<not> b7 \<and> \<not> b6 \<and> b5 \<and> b4 \<and> \<not> (b3 \<and> (b2 \<or> b1)))"
  by (cases b0; cases b1; cases b2; cases b3; cases b4; cases b5; cases b6; cases b7;
      simp add: is_digit_def ord_def)

lemma is_space_bits [code]:
  "is_space (Char b0 b1 b2 b3 b4 b5 b6 b7) =
     (\<not> b7 \<and> \<not> b6 \<and>
      ((b5 \<and> \<not> b4 \<and> \<not> b3 \<and> \<not> b2 \<and> \<not> b1 \<and> \<not> b0) \<or>
       (\<not> b5 \<and> b4 \<and> b3 \<and> b2) \<or>
       (\<not> b5 \<and> \<not> b4 \<and> b3 \<and> ((\<not> b2 \<and> (b1 \<or> b0)) \<or> (b2 \<and> \<not> b1)))))"
  by (cases b0; cases b1; cases b2; cases b3; cases b4; cases b5; cases b6; cases b7;
      simp add: is_space_def ord_def)

lemma is_cont_bits [code]:
  "is_cont (Char b0 b1 b2 b3 b4 b5 b6 b7) = (b7 \<and> \<not> b6)"
  by (cases b0; cases b1; cases b2; cases b3; cases b4; cases b5; cases b6; cases b7;
      simp add: is_cont_def ord_def)

definition lower :: "string \<Rightarrow> string" where
  "lower s = map lower_char s"

definition upper :: "string \<Rightarrow> string" where
  "upper s = map upper_char s"

text \<open>\<^verbatim>\<open>len(s)\<close>: the number of code points.\<close>

definition py_len :: "string \<Rightarrow> nat" where
  "py_len s = length (filter (\<lambda>c. \<not> is_cont c) s)"

text \<open>Truthiness of a string and of an optional string (\<^verbatim>\<open>None\<close> and \<^verbatim>\<open>""\<close> are falsy).\<close>

definition truthy :: "string option \<Rightarrow> bool" where
  "truthy v = (case v of None \<Rightarrow> False | Some s \<Rightarrow> s \<noteq> [])"

definition or_empty :: "string option \<Rightarrow> string" where
  "or_empty v = (case v of None \<Rightarrow> [] | Some s \<Rightarrow> s)"

definition lstrip :: "string \<Rightarrow> string" where
  "lstrip s = dropWhile is_space s"

definition rstrip :: "string \<Rightarrow> string" where
  "rstrip s = rev (dropWhile is_space (rev s))"

definition strip :: "string \<Rightarrow> string" where
  "strip s = rstrip (lstrip s)"

fun starts_with :: "string \<Rightarrow> string \<Rightarrow> bool" where
  "starts_with s [] = True"
| "starts_with [] (p # ps) = False"
| "starts_with (c # cs) (p # ps) = (c = p \<and> starts_with cs ps)"

definition ends_with :: "string \<Rightarrow> string \<Rightarrow> bool" where
  "ends_with s suffix = starts_with (rev s) (rev suffix)"

text \<open>\<^verbatim>\<open>sub in s\<close>.\<close>

fun contains :: "string \<Rightarrow> string \<Rightarrow> bool" where
  "contains [] sub = (sub = [])"
| "contains (c # cs) sub = (starts_with (c # cs) sub \<or> contains cs sub)"

text \<open>\<^verbatim>\<open>any(term in text for term in terms)\<close>.\<close>

definition contains_any :: "string \<Rightarrow> string list \<Rightarrow> bool" where
  "contains_any text terms = list_ex (\<lambda>t. contains text t) terms"

text \<open>
  \<^verbatim>\<open>s.split()\<close>: the maximal runs of non-whitespace characters. The accumulator
  holds the current word, reversed.
\<close>

fun split_ws_acc :: "string \<Rightarrow> string \<Rightarrow> string list" where
  "split_ws_acc acc [] = (if acc = [] then [] else [rev acc])"
| "split_ws_acc acc (c # cs) =
     (if is_space c then (if acc = [] then split_ws_acc [] cs else rev acc # split_ws_acc [] cs)
      else split_ws_acc (c # acc) cs)"

definition split_ws :: "string \<Rightarrow> string list" where
  "split_ws s = split_ws_acc [] s"

text \<open>\<^verbatim>\<open>sep.join(parts)\<close>.\<close>

fun join :: "string \<Rightarrow> string list \<Rightarrow> string" where
  "join sep [] = []"
| "join sep [p] = p"
| "join sep (p # q # ps) = p @ sep @ join sep (q # ps)"

text \<open>\<^verbatim>\<open>s.isupper()\<close>: some cased character, and no lower-case one.\<close>

definition isupper :: "string \<Rightarrow> bool" where
  "isupper s = (list_ex is_upper s \<and> \<not> list_ex is_lower s)"

text \<open>The code points of a string, and \<^verbatim>\<open>s[a:b]\<close> for \<^verbatim>\<open>0 <= a <= b\<close>.\<close>

function cps :: "string \<Rightarrow> string list" where
  "cps [] = []"
| "cps (c # cs) = (c # takeWhile is_cont cs) # cps (dropWhile is_cont cs)"
  by pat_completeness auto
termination
  by (relation "measure length") (auto simp: less_Suc_eq_le length_dropWhile_le)

definition py_slice :: "string \<Rightarrow> nat \<Rightarrow> nat \<Rightarrow> string" where
  "py_slice s a b = concat (take (b - a) (drop a (cps s)))"

text \<open>The non-ASCII characters of the sources.\<close>

definition bullet_round :: string where
  "bullet_round = [CHR 0xE2, CHR 0x80, CHR 0xA2]"

definition bullet_black :: string where
  "bullet_black = [CHR 0xE2, CHR 0x97, CHR 0x8F]"

definition en_dash :: string where
  "en_dash = [CHR 0xE2, CHR 0x80, CHR 0x93]"

definition arrow_right :: string where
  "arrow_right = [CHR 0xE2, CHR 0x86, CHR 0x92]"

text \<open>Python exceptions, as values.\<close>

datatype py_error = AttributeError | ValueError | ZeroDivisionError | RecursionError
  | ValidationError | RuntimeError

section \<open>Regular expressions\<close>

text \<open>
  The patterns of the sources are terms of \<open>rx\<close>, matched by a backtracking matcher
  in continuation-passing style, as Python's \<^verbatim>\<open>re\<close> does: alternatives left to
  right, greedy repetition longest first, lazy repetition shortest first. A character
  set holds single characters, the classes \<^verbatim>\<open>a-z\<close> (\<open>Lower\<close>), \<^verbatim>\<open>A-Z\<close> (\<open>Upper\<close>),
  \<^verbatim>\<open>\d\<close> or \<^verbatim>\<open>0-9\<close> (\<open>Dg\<close>), \<^verbatim>\<open>\s\<close> (\<open>Sp\<close>), \<^verbatim>\<open>\w\<close> (\<open>Wd\<close>) and non-ASCII
  code points (\<open>U\<close>). The flag \<open>ic\<close> is \<^verbatim>\<open>re.IGNORECASE\<close>.
\<close>

datatype citem = C char | Lower | Upper | Dg | Sp | Wd | U string

datatype rx =
    Set "citem list"
  | NSet "citem list"
  | Lit string
  | Eps
  | Cat rx rx
  | Alt rx rx
  | Rep rx nat "nat option"
  | RepLazy rx nat "nat option"
  | Grp nat rx
  | Bol
  | Eol
  | Wb
  | Ahead rx
  | Behind "citem list"

text \<open>
  The matcher's state: the code point before the position (empty at the start of the
  text), the text from the position on, and the groups captured so far, latest first.
\<close>

datatype mstate = MState (prev: string) (rest: string) (caps: "(nat \<times> string) list")

fun take_cp :: "string \<Rightarrow> string \<times> string" where
  "take_cp [] = ([], [])"
| "take_cp (c # cs) = (c # takeWhile is_cont cs, dropWhile is_cont cs)"

fun item_has :: "citem \<Rightarrow> string \<Rightarrow> bool" where
  "item_has (C a) cp = (cp = [a])"
| "item_has Lower cp = (case cp of [c] \<Rightarrow> is_lower c | _ \<Rightarrow> False)"
| "item_has Upper cp = (case cp of [c] \<Rightarrow> is_upper c | _ \<Rightarrow> False)"
| "item_has Dg cp = (case cp of [c] \<Rightarrow> is_digit c | _ \<Rightarrow> False)"
| "item_has Sp cp = (case cp of [c] \<Rightarrow> is_space c | _ \<Rightarrow> False)"
| "item_has Wd cp = (case cp of [c] \<Rightarrow> is_word_char c | _ \<Rightarrow> False)"
| "item_has (U u) cp = (cp = u)"

definition set_has :: "bool \<Rightarrow> citem list \<Rightarrow> string \<Rightarrow> bool" where
  "set_has ic items cp =
     (list_ex (\<lambda>i. item_has i cp) items \<or>
      (ic \<and> (list_ex (\<lambda>i. item_has i (lower cp)) items \<or>
             list_ex (\<lambda>i. item_has i (upper cp)) items)))"

definition at_word_boundary :: "mstate \<Rightarrow> bool" where
  "at_word_boundary s =
     (let wl = (case prev s of [c] \<Rightarrow> is_word_char c | _ \<Rightarrow> False);
          wr = (case rest s of [] \<Rightarrow> False | c # _ \<Rightarrow> is_word_char c)
      in wl \<noteq> wr)"

text \<open>A literal, byte by byte; the code point before the position follows along.\<close>

fun lit_match :: "bool \<Rightarrow> string \<Rightarrow> string \<Rightarrow> string \<Rightarrow> (string \<times> string) option" where
  "lit_match ic [] pv r = Some (pv, r)"
| "lit_match ic (p # ps) pv [] = None"
| "lit_match ic (p # ps) pv (c # cs) =
     (if c = p \<or> (ic \<and> lower_char c = lower_char p)
      then lit_match ic ps (if is_cont c then pv @ [c] else [c]) cs
      else None)"

fun rxsize :: "rx \<Rightarrow> nat" where
  "rxsize (Cat a b) = Suc (rxsize a + rxsize b)"
| "rxsize (Alt a b) = Suc (rxsize a + rxsize b)"
| "rxsize (Rep r mn mx) = Suc (rxsize r)"
| "rxsize (RepLazy r mn mx) = Suc (rxsize r)"
| "rxsize (Grp n r) = Suc (rxsize r)"
| "rxsize (Ahead r) = Suc (rxsize r)"
| "rxsize _ = 0"

definition dec_max :: "nat option \<Rightarrow> nat option" where
  "dec_max mx = (case mx of None \<Rightarrow> None | Some m \<Rightarrow> Some (m - 1))"

fun shorter :: "'a list \<Rightarrow> 'a list \<Rightarrow> bool" where
  "shorter [] [] = False"
| "shorter [] (y # ys) = True"
| "shorter (x # xs) [] = False"
| "shorter (x # xs) (y # ys) = shorter xs ys"

lemma shorter_length [simp]: "shorter xs ys \<Longrightarrow> length xs < length ys"
  by (induction xs ys rule: shorter.induct) auto

text \<open>The text between a position and a later one.\<close>

fun consumed :: "string \<Rightarrow> string \<Rightarrow> string" where
  "consumed [] r' = []"
| "consumed (c # cs) r' = (if shorter r' (c # cs) then c # consumed cs r' else [])"

text \<open>
  \<open>rmatch ic r s k\<close> matches \<open>r\<close> at the state \<open>s\<close> and hands every way of matching,
  in Python's order of preference, to the continuation \<open>k\<close> until one is accepted. A
  repetition stops when its body matches the empty string.
\<close>

function rmatch :: "bool \<Rightarrow> rx \<Rightarrow> mstate \<Rightarrow> (mstate \<Rightarrow> mstate option) \<Rightarrow> mstate option" where
  "rmatch ic (Set items) s k =
     (case rest s of [] \<Rightarrow> None
      | _ \<Rightarrow> (case take_cp (rest s) of (cp, r) \<Rightarrow>
                 if set_has ic items cp then k (MState cp r (caps s)) else None))"
| "rmatch ic (NSet items) s k =
     (case rest s of [] \<Rightarrow> None
      | _ \<Rightarrow> (case take_cp (rest s) of (cp, r) \<Rightarrow>
                 if set_has ic items cp then None else k (MState cp r (caps s))))"
| "rmatch ic (Lit l) s k =
     (case lit_match ic l (prev s) (rest s) of None \<Rightarrow> None
      | Some (pv, r) \<Rightarrow> k (MState pv r (caps s)))"
| "rmatch ic Eps s k = k s"
| "rmatch ic (Cat a b) s k = rmatch ic a s (\<lambda>s'. rmatch ic b s' k)"
| "rmatch ic (Alt a b) s k =
     (case rmatch ic a s k of Some x \<Rightarrow> Some x | None \<Rightarrow> rmatch ic b s k)"
| "rmatch ic (Rep r mn mx) s k =
     (if mx = Some 0 then k s
      else (case rmatch ic r s
                   (\<lambda>s'. if shorter (rest s') (rest s)
                          then rmatch ic (Rep r (mn - 1) (dec_max mx)) s' k
                          else None) of
              Some x \<Rightarrow> Some x
            | None \<Rightarrow> if mn = 0 then k s else None))"
| "rmatch ic (RepLazy r mn mx) s k =
     (if mx = Some 0 then k s
      else (case (if mn = 0 then k s else None) of
              Some x \<Rightarrow> Some x
            | None \<Rightarrow> rmatch ic r s
                   (\<lambda>s'. if shorter (rest s') (rest s)
                          then rmatch ic (RepLazy r (mn - 1) (dec_max mx)) s' k
                          else None)))"
| "rmatch ic (Grp n r) s k =
     rmatch ic r s
       (\<lambda>s'. k (MState (prev s') (rest s') ((n, consumed (rest s) (rest s')) # caps s')))"
| "rmatch ic Bol s k = (if prev s = [] then k s else None)"
| "rmatch ic Eol s k = (if rest s = [] \<or> rest s = [CHR 0x0A] then k s else None)"
| "rmatch ic Wb s k = (if at_word_boundary s then k s else None)"
| "rmatch ic (Ahead r) s k =
     (case rmatch ic r s Some of None \<Rightarrow> None | Some _ \<Rightarrow> k s)"
| "rmatch ic (Behind items) s k = (if set_has ic items (prev s) then k s else None)"
  by pat_completeness auto
termination
  by (relation "measures [\<lambda>(ic, r, s, k). rxsize r, \<lambda>(ic, r, s, k). length (rest s)]") auto

text \<open>Abbreviations for the usual forms.\<close>

definition Ch :: "char \<Rightarrow> rx" where
  "Ch c = Set [C c]"

definition Any :: rx where
  "Any = NSet [C (CHR 0x0A)]"

definition Star :: "rx \<Rightarrow> rx" where
  "Star r = Rep r 0 None"

definition Plus :: "rx \<Rightarrow> rx" where
  "Plus r = Rep r 1 None"

definition Opt :: "rx \<Rightarrow> rx" where
  "Opt r = Rep r 0 (Some 1)"

definition PlusLazy :: "rx \<Rightarrow> rx" where
  "PlusLazy r = RepLazy r 1 None"

definition Times :: "rx \<Rightarrow> nat \<Rightarrow> nat \<Rightarrow> rx" where
  "Times r mn mx = Rep r mn (Some mx)"

fun Seq :: "rx list \<Rightarrow> rx" where
  "Seq [] = Eps"
| "Seq [r] = r"
| "Seq (r # rs) = Cat r (Seq rs)"

fun Alts :: "rx list \<Rightarrow> rx" where
  "Alts [] = Set []"
| "Alts [r] = r"
| "Alts (r # rs) = Alt r (Alts rs)"

text \<open>\<^verbatim>\<open>m.group(n)\<close>: \<^verbatim>\<open>None\<close> when the group took no part in the match.\<close>

definition group :: "mstate \<Rightarrow> nat \<Rightarrow> string option" where
  "group m n = map_of (caps m) n"

text \<open>
  \<^verbatim>\<open>re.match\<close> and \<^verbatim>\<open>re.fullmatch\<close>: the result is the final state and the matched
  text (\<^verbatim>\<open>m.group(0)\<close>).
\<close>

definition re_match :: "bool \<Rightarrow> rx \<Rightarrow> string \<Rightarrow> (mstate \<times> string) option" where
  "re_match ic r s =
     (case rmatch ic r (MState [] s []) Some of
        None \<Rightarrow> None
      | Some m \<Rightarrow> Some (m, consumed s (rest m)))"

definition re_fullmatch :: "bool \<Rightarrow> rx \<Rightarrow> string \<Rightarrow> (mstate \<times> string) option" where
  "re_fullmatch ic r s =
     (case rmatch ic r (MState [] s []) (\<lambda>m. if rest m = [] then Some m else None) of
        None \<Rightarrow> None
      | Some m \<Rightarrow> Some (m, s))"

text \<open>
  \<^verbatim>\<open>re.search\<close>: the leftmost match. The result is the index of its start (in code
  points), the final state and the matched text.
\<close>

fun rsearch_from :: "bool \<Rightarrow> rx \<Rightarrow> string \<Rightarrow> string \<Rightarrow> nat \<Rightarrow> (nat \<times> mstate \<times> string) option" where
  "rsearch_from ic r pv [] n =
     (case rmatch ic r (MState pv [] []) Some of
        Some m \<Rightarrow> Some (n, m, []) | None \<Rightarrow> None)"
| "rsearch_from ic r pv (c # cs) n =
     (if is_cont c then rsearch_from ic r pv cs n
      else (case rmatch ic r (MState pv (c # cs) []) Some of
              Some m \<Rightarrow> Some (n, m, consumed (c # cs) (rest m))
            | None \<Rightarrow> rsearch_from ic r (fst (take_cp (c # cs))) cs (Suc n)))"

definition re_search :: "bool \<Rightarrow> rx \<Rightarrow> string \<Rightarrow> (nat \<times> mstate \<times> string) option" where
  "re_search ic r s = rsearch_from ic r [] s 0"

definition re_found :: "bool \<Rightarrow> rx \<Rightarrow> string \<Rightarrow> bool" where
  "re_found ic r s = (re_search ic r s \<noteq> None)"

definition re_matches :: "bool \<Rightarrow> rx \<Rightarrow> string \<Rightarrow> bool" where
  "re_matches ic r s = (re_match ic r s \<noteq> None)"

text \<open>
  \<^verbatim>\<open>re.sub\<close>, the replacement a function of the match; \<^verbatim>\<open>re.findall\<close> (the matched
  texts) and \<^verbatim>\<open>re.split\<close> for patterns without groups. After a match the scan goes
  on behind it; after an empty match it copies one code point first.
\<close>

function re_sub_from :: "bool \<Rightarrow> rx \<Rightarrow> (mstate \<Rightarrow> string) \<Rightarrow> string \<Rightarrow> string \<Rightarrow> string" where
  "re_sub_from ic r repl pv [] =
     (case rmatch ic r (MState pv [] []) Some of Some m \<Rightarrow> repl m | None \<Rightarrow> [])"
| "re_sub_from ic r repl pv (c # cs) =
     (case rmatch ic r (MState pv (c # cs) []) Some of
        None \<Rightarrow> (c # takeWhile is_cont cs) @ re_sub_from ic r repl (c # takeWhile is_cont cs) (dropWhile is_cont cs)
      | Some m \<Rightarrow>
          if shorter (rest m) (c # cs)
          then repl m @ re_sub_from ic r repl (prev m) (rest m)
          else repl m @ (c # takeWhile is_cont cs) @
               re_sub_from ic r repl (c # takeWhile is_cont cs) (dropWhile is_cont cs))"
  by pat_completeness auto
termination
  by (relation "measure (\<lambda>(ic, r, repl, pv, s). length s)")
     (auto simp: less_Suc_eq_le length_dropWhile_le dest: shorter_length)

definition re_sub :: "bool \<Rightarrow> rx \<Rightarrow> (mstate \<Rightarrow> string) \<Rightarrow> string \<Rightarrow> string" where
  "re_sub ic r repl s = re_sub_from ic r repl [] s"



text \<open>\<^verbatim>\<open>re.split\<close> for a pattern that never matches the empty string; \<open>acc\<close> is the
  current piece, reversed.\<close>

function re_split_from :: "bool \<Rightarrow> rx \<Rightarrow> string \<Rightarrow> string \<Rightarrow> string \<Rightarrow> string list" where
  "re_split_from ic r acc pv [] = [rev acc]"
| "re_split_from ic r acc pv (c # cs) =
     (case rmatch ic r (MState pv (c # cs) []) Some of
        None \<Rightarrow> re_split_from ic r (rev (c # takeWhile is_cont cs) @ acc)
                  (c # takeWhile is_cont cs) (dropWhile is_cont cs)
      | Some m \<Rightarrow>
          if shorter (rest m) (c # cs)
          then rev acc # re_split_from ic r [] (prev m) (rest m)
          else re_split_from ic r (rev (c # takeWhile is_cont cs) @ acc)
                  (c # takeWhile is_cont cs) (dropWhile is_cont cs))"
  by pat_completeness auto
termination
  by (relation "measure (\<lambda>(ic, r, acc, pv, s). length s)")
     (auto simp: less_Suc_eq_le length_dropWhile_le dest: shorter_length)

definition re_split :: "bool \<Rightarrow> rx \<Rightarrow> string \<Rightarrow> string list" where
  "re_split ic r s = re_split_from ic r [] [] s"

section \<open>Data model\<close>

text \<open>The models of schemas.py. An optional field is an \<open>option\<close>; \<^verbatim>\<open>None\<close> is \<open>None\<close>.\<close>

record EvidenceItem =
  ev_source :: string
  ev_locator :: string
  ev_text :: string
  ev_confidence :: real

record FieldConfidence =
  fc_field_name :: string
  fc_confidence :: real
  fc_extraction_method :: string
  fc_reasons :: "string list"
  fc_required :: bool

record EducationEntry =
  institution :: "string option"
  degree :: "string option"
  field_of_study :: "string option"
  edu_location :: "string option"
  edu_start_date :: "string option"
  edu_end_date :: "string option"
  gpa :: "string option"
  details :: "string list"

text \<open>
  An experience is the dictionary \<^verbatim>\<open>_parse_experience_entry\<close> builds: always the same
  eight keys, the first seven \<^verbatim>\<open>None\<close> or a string.
\<close>

record Experience =
  company :: "string option"
  job_title :: "string option"
  exp_location :: "string option"
  start_date :: "string option"
  end_date :: "string option"
  company_description :: "string option"
  job_description :: "string option"
  achievements :: "string list"

record CandidateProfile =
  full_name :: "string option"
  email :: "string option"
  phone :: "string option"
  location :: "string option"
  links :: "string list"
  skills :: "string list"
  experiences :: "Experience list"
  education :: "EducationEntry list"

type_synonym evidence_map = "string \<rightharpoonup> EvidenceItem list"

record ParseResponse =
  candidate_profile :: CandidateProfile
  evidence_map :: evidence_map
  confidence_scores :: "string \<rightharpoonup> FieldConfidence"
  parse_quality :: string
  warnings :: "string list"

text \<open>\<^verbatim>\<open>d.get(k, default)\<close>.\<close>

definition dict_get :: "('k \<rightharpoonup> 'v) \<Rightarrow> 'k \<Rightarrow> 'v \<Rightarrow> 'v" where
  "dict_get d k dflt = (case d k of None \<Rightarrow> dflt | Some v \<Rightarrow> v)"

text \<open>Sequencing of computations that may raise.\<close>

definition bind_err :: "(py_error + 'a) \<Rightarrow> ('a \<Rightarrow> py_error + 'b) \<Rightarrow> py_error + 'b" where
  "bind_err m f = (case m of Inl e \<Rightarrow> Inl e | Inr x \<Rightarrow> f x)"

text \<open>
  The constructors validate their arguments (pydantic): the source of an evidence item
  is one of four literals, a confidence lies in \<open>[0, 1]\<close>.
\<close>

definition mk_EvidenceItem :: "string \<Rightarrow> string \<Rightarrow> string \<Rightarrow> py_error + EvidenceItem" where
  "mk_EvidenceItem src loc txt =
     (if src \<in> set [''docx'', ''pdf'', ''ocr'', ''user'']
      then Inr \<lparr>ev_source = src, ev_locator = loc, ev_text = txt, ev_confidence = 1\<rparr>
      else Inl ValidationError)"

definition mk_FieldConfidence ::
  "string \<Rightarrow> real \<Rightarrow> string \<Rightarrow> string list \<Rightarrow> bool \<Rightarrow> py_error + FieldConfidence" where
  "mk_FieldConfidence name conf method rs req =
     (if 0 \<le> conf \<and> conf \<le> 1
      then Inr \<lparr>fc_field_name = name, fc_confidence = conf, fc_extraction_method = method,
                fc_reasons = rs, fc_required = req\<rparr>
      else Inl ValidationError)"

text \<open>\<^verbatim>\<open>add_ev\<close> of \<^verbatim>\<open>parse_lines_to_response\<close>: the text is stored stripped.\<close>

definition add_ev :: "string \<Rightarrow> evidence_map \<Rightarrow> string \<Rightarrow> string \<Rightarrow> string \<Rightarrow> py_error + evidence_map" where
  "add_ev src ev key loc txt =
     bind_err (mk_EvidenceItem src loc (strip txt))
       (\<lambda>item. Inr (ev(key \<mapsto> dict_get ev key [] @ [item])))"


section \<open>Confidence calculator: overall parse quality\<close>

text \<open>
  \<^verbatim>\<open>ConfidenceCalculator.calculate_overall_parse_quality\<close> (confidence_calculator.py).
  The argument is a dictionary from field names to confidences. The confidences are
  read as exact real numbers here; the source adds, divides and compares doubles, which
  round, so that close to a breakpoint it can return another tier than this function.
  The function is used below only for the shape of the response.
\<close>

definition core_fields :: "string list" where
  "core_fields = [''full_name'', ''email'', ''phone'']"

definition calculate_overall_parse_quality :: "(string \<rightharpoonup> real) \<Rightarrow> string" where
  "calculate_overall_parse_quality field_confidences =
     (let core_confidences = map (\<lambda>field. dict_get field_confidences field 0) core_fields;
          avg_core = (if core_confidences \<noteq> []
                      then sum_list core_confidences / real (length core_confidences)
                      else 0)
      in if avg_core \<ge> 0.85 then ''high''
         else if avg_core \<ge> 0.65 then ''medium''
         else ''low'')"

section \<open>Confidence scoring\<close>

text \<open>
  The per-field calculators of \<^verbatim>\<open>ConfidenceCalculator\<close> (confidence_calculator.py):
  each returns a confidence and a method tag. Floats are read as exact reals.
\<close>

text \<open>\<^verbatim>\<open>^[A-Z0-9._%+-]+@[A-Z0-9.-]+\.[A-Z]{2,}$\<close>, matched ignoring case.\<close>

definition email_pattern :: rx where
  "email_pattern =
     Seq [Bol,
          Plus (Set [Upper, Dg, C CHR ''.'', C CHR ''_'', C CHR ''%'', C CHR ''+'', C CHR ''-'']),
          Ch CHR ''@'',
          Plus (Set [Upper, Dg, C CHR ''.'', C CHR ''-'']),
          Ch CHR ''.'',
          Rep (Set [Upper]) 2 None,
          Eol]"

definition calc_email :: "string \<Rightarrow> nat \<Rightarrow> real \<times> string" where
  "calc_email email_value evidence_count =
     (if email_value = [] then (0, ''no_email_found'')
      else if \<not> re_matches True email_pattern email_value then (0.4, ''invalid_email_format'')
      else if evidence_count = 1 then (1, ''regex_exact_single'')
      else if evidence_count \<le> 3 then (0.85, ''regex_exact_multiple_occurrences'')
      else (0.6, ''too_many_email_candidates''))"

definition calc_phone :: "string \<Rightarrow> nat \<Rightarrow> real \<times> string" where
  "calc_phone phone_value evidence_count =
     (if phone_value = [] then (0, ''no_phone_found'')
      else let digits_only = re_sub False (NSet [Dg]) (\<lambda>m. []) phone_value
           in if py_len digits_only < 7 then (0.3, ''too_few_digits'')
              else if evidence_count = 1 then (1, ''regex_exact_single'')
              else if evidence_count \<le> 2 then (0.85, ''regex_exact_multiple'')
              else (0.6, ''ambiguous_multiple_phones''))"

definition calc_full_name :: "string \<Rightarrow> bool \<Rightarrow> bool \<Rightarrow> bool \<Rightarrow> bool \<Rightarrow> real \<times> string" where
  "calc_full_name name_value near_email is_top_of_resume passes_blacklist has_middle_initial =
     (if name_value = [] then (0, ''no_name_found'')
      else if py_len name_value > 60 then (0.2, ''name_too_long'')
      else if list_ex is_digit name_value then (0.3, ''name_contains_digits'')
      else let c0 = (0.5 :: real);
               c1 = (if \<not> passes_blacklist then c0 - 0.2 else c0);
               c2 = (if near_email then c1 + 0.25 else c1);
               c3 = (if is_top_of_resume then c2 + 0.25 else c2);
               c4 = (if has_middle_initial then c3 + 0.05 else c3)
           in if \<not> contains name_value '' '' then (0.2, ''no_space_in_name'')
              else (max 0 (min 1 c4),
                    if near_email \<and> is_top_of_resume then ''heuristic_multivariate''
                    else ''heuristic_window''))"

definition calc_location :: "string \<Rightarrow> string \<Rightarrow> bool \<Rightarrow> bool \<Rightarrow> real \<times> string" where
  "calc_location location_value extraction_method has_comma is_valid_format =
     (if location_value = [] then (0, ''no_location_found'')
      else let c0 = (if extraction_method = ''regex_pattern''
                     then (if is_valid_format then 0.95 else 0.7)
                     else if extraction_method = ''heuristic'' then 0.75
                     else if extraction_method = ''after_title'' then 0.65
                     else (0.6 :: real));
               c1 = (if \<not> has_comma then c0 - 0.1 else c0)
           in (max 0 (min 1 c1), extraction_method))"

text \<open>\<^verbatim>\<open>str(n)\<close> for a natural number, \<^verbatim>\<open>str(b)\<close> for a boolean and \<^verbatim>\<open>f"{x:.2f}"\<close>
  for a confidence.\<close>

definition digit_char :: "nat \<Rightarrow> char" where
  "digit_char n = ''0123456789'' ! (n mod 10)"

function str_nat :: "nat \<Rightarrow> string" where
  "str_nat n = (if n < 10 then [digit_char n] else str_nat (n div 10) @ [digit_char n])"
  by pat_completeness auto
termination
  by (relation "measure id") auto

definition str_bool :: "bool \<Rightarrow> string" where
  "str_bool b = (if b then ''True'' else ''False'')"

definition format_2f :: "real \<Rightarrow> string" where
  "format_2f x =
     (let h = nat \<lfloor>x * 100 + 1 / 2\<rfloor>
      in str_nat (h div 100) @ ''.'' @ [digit_char (h div 10), digit_char h])"

text \<open>
  Step 8 of \<^verbatim>\<open>parse_lines_to_response\<close>: one entry of \<^verbatim>\<open>confidence_scores\<close> per
  field, from the candidate profile and the evidence map the earlier steps built.
\<close>

definition email_score :: "CandidateProfile \<Rightarrow> evidence_map \<Rightarrow> py_error + FieldConfidence" where
  "email_score c ev =
     (if truthy (email c)
      then (case calc_email (or_empty (email c)) (length (dict_get ev ''email'' [])) of
              (conf, method) \<Rightarrow>
                mk_FieldConfidence ''email'' conf method [''Found via regex extraction''] True)
      else mk_FieldConfidence ''email'' 0 ''not_found'' [''No email found in resume''] True)"

definition phone_score :: "CandidateProfile \<Rightarrow> evidence_map \<Rightarrow> py_error + FieldConfidence" where
  "phone_score c ev =
     (if truthy (phone c)
      then (case calc_phone (or_empty (phone c)) (length (dict_get ev ''phone'' [])) of
              (conf, method) \<Rightarrow>
                mk_FieldConfidence ''phone'' conf method [''Found via regex extraction''] True)
      else mk_FieldConfidence ''phone'' 0 ''not_found'' [''No phone number found in resume''] True)"

definition full_name_score ::
  "CandidateProfile \<Rightarrow> evidence_map \<Rightarrow> nat option \<Rightarrow> py_error + FieldConfidence" where
  "full_name_score c ev email_idx =
     (if truthy (full_name c)
      then (let name = or_empty (full_name c);
                near_email = (email_idx \<noteq> None);
                is_top = list_ex (\<lambda>e. starts_with (ev_locator e) ''docx:paragraph:0'' \<or>
                                       starts_with (ev_locator e) ''pdf:page:1:line:'')
                           (dict_get ev ''full_name'' []);
                has_middle_initial = (contains name '' '' \<and> length (split_ws name) \<ge> 3)
            in case calc_full_name name near_email is_top True has_middle_initial of
                 (conf, method) \<Rightarrow>
                   mk_FieldConfidence ''full_name'' conf method
                     [''Extracted from resume header area'',
                      ''Near email: '' @ str_bool near_email,
                      ''At top: '' @ str_bool is_top] True)
      else mk_FieldConfidence ''full_name'' 0 ''not_found'' [''No candidate name found''] True)"

definition location_score :: "CandidateProfile \<Rightarrow> py_error + FieldConfidence" where
  "location_score c =
     (if truthy (location c)
      then (let loc = or_empty (location c);
                has_comma = contains loc '',''
            in case calc_location loc ''regex_pattern'' has_comma has_comma of
                 (conf, method) \<Rightarrow>
                   mk_FieldConfidence ''location'' conf method
                     [''Extracted from geographic pattern''] False)
      else mk_FieldConfidence ''location'' 0 ''not_found'' [''No location found''] False)"

definition links_score :: "CandidateProfile \<Rightarrow> py_error + FieldConfidence" where
  "links_score c =
     (if links c \<noteq> []
      then mk_FieldConfidence ''links'' 0.95 ''regex_url_extraction''
             [''Found '' @ str_nat (length (links c)) @ '' URL(s) via regex''] False
      else mk_FieldConfidence ''links'' 0 ''not_found'' [''No URLs found''] False)"

definition skills_score :: "CandidateProfile \<Rightarrow> py_error + FieldConfidence" where
  "skills_score c =
     (if skills c \<noteq> []
      then mk_FieldConfidence ''skills'' 0.85 ''section_extraction''
             [''Found '' @ str_nat (length (skills c)) @ '' skills''] False
      else mk_FieldConfidence ''skills'' 0 ''not_found'' [''No skills found''] False)"

text \<open>The local \<^verbatim>\<open>experiences\<close> is the list just stored in the candidate profile.\<close>

definition experiences_score :: "CandidateProfile \<Rightarrow> py_error + FieldConfidence" where
  "experiences_score c =
     (if experiences c \<noteq> []
      then mk_FieldConfidence ''experiences'' 0.85 ''multi_line_experience_parsing''
             [''Found '' @ str_nat (length (experiences c)) @ '' experience entries''] False
      else mk_FieldConfidence ''experiences'' 0 ''not_found'' [''No experience section found''] False)"

definition score_fields ::
  "CandidateProfile \<Rightarrow> evidence_map \<Rightarrow> nat option \<Rightarrow> py_error + (string \<rightharpoonup> FieldConfidence)" where
  "score_fields c ev email_idx =
     bind_err (email_score c ev) (\<lambda>e.
     bind_err (phone_score c ev) (\<lambda>p.
     bind_err (full_name_score c ev email_idx) (\<lambda>n.
     bind_err (location_score c) (\<lambda>l.
     bind_err (links_score c) (\<lambda>k.
     bind_err (skills_score c) (\<lambda>s.
     bind_err (experiences_score c) (\<lambda>x.
       Inr (Map.empty(''email'' \<mapsto> e, ''phone'' \<mapsto> p, ''full_name'' \<mapsto> n, ''location'' \<mapsto> l,
              ''links'' \<mapsto> k, ''skills'' \<mapsto> s, ''experiences'' \<mapsto> x)))))))))"

text \<open>
  Step 9 and the return: the parse quality from the confidences, the warnings on a
  weak email or name, and the eight stable keys of the evidence map
  (\<^verbatim>\<open>evidence_map.setdefault(key, [])\<close>).
\<close>

definition stable_keys :: "string list" where
  "stable_keys = [''full_name'', ''email'', ''phone'', ''location'', ''links'', ''skills'',
                  ''experiences'', ''education'']"

definition setdefault_empty :: "evidence_map \<Rightarrow> string \<Rightarrow> evidence_map" where
  "setdefault_empty ev key = (case ev key of None \<Rightarrow> ev(key \<mapsto> []) | Some _ \<Rightarrow> ev)"

definition low_confidence_warning ::
  "(string \<rightharpoonup> FieldConfidence) \<Rightarrow> string \<Rightarrow> string option \<Rightarrow> string \<Rightarrow> string \<Rightarrow> string list" where
  "low_confidence_warning cs key val missing low =
     (let conf = (case cs key of None \<Rightarrow> 0 | Some fc \<Rightarrow> fc_confidence fc)
      in if conf < 0.8
         then (if \<not> truthy val then [missing] else [low @ format_2f conf])
         else [])"

definition score_and_respond ::
  "CandidateProfile \<Rightarrow> evidence_map \<Rightarrow> nat option \<Rightarrow> string list \<Rightarrow> py_error + ParseResponse" where
  "score_and_respond c ev email_idx ws =
     bind_err (score_fields c ev email_idx) (\<lambda>cs.
       let quality = calculate_overall_parse_quality (\<lambda>field. map_option fc_confidence (cs field));
           ws1 = ws @ low_confidence_warning cs ''email'' (email c)
                        ''Could not extract email. User clarification needed.''
                        ''Email extraction has low confidence: '';
           ws2 = ws1 @ low_confidence_warning cs ''full_name'' (full_name c)
                        ''Could not extract candidate name. User clarification needed.''
                        ''Name extraction has low confidence: '';
           ev' = foldl setdefault_empty ev stable_keys
       in Inr \<lparr>candidate_profile = c, evidence_map = ev', confidence_scores = cs,
                parse_quality = quality, warnings = ws2\<rparr>)"

lemma calc_email_bounds: "calc_email v n = (conf, method) \<Longrightarrow> 0 \<le> conf \<and> conf \<le> 1"
  by (auto simp: calc_email_def split: if_splits)

lemma calc_phone_bounds: "calc_phone v n = (conf, method) \<Longrightarrow> 0 \<le> conf \<and> conf \<le> 1"
  by (auto simp: calc_phone_def Let_def split: if_splits)

lemma calc_full_name_bounds:
  "calc_full_name v a b c d = (conf, method) \<Longrightarrow> 0 \<le> conf \<and> conf \<le> 1"
  unfolding calc_full_name_def Let_def
  by (cases a; cases b; cases c; cases d) (auto split: if_splits)

lemma calc_location_bounds:
  "calc_location v m a b = (conf, method) \<Longrightarrow> 0 \<le> conf \<and> conf \<le> 1"
  by (auto simp: calc_location_def Let_def split: if_splits)

lemma mk_FieldConfidence_ok:
  "0 \<le> conf \<and> conf \<le> 1 \<Longrightarrow> \<exists>fc. mk_FieldConfidence name conf method rs req = Inr fc"
  by (simp add: mk_FieldConfidence_def)

lemma email_score_ok: "\<exists>fc. email_score c ev = Inr fc"
proof (cases "truthy (email c)")
  case False
  then show ?thesis by (simp add: email_score_def mk_FieldConfidence_def)
next
  case True
  obtain conf meth where cm:
    "calc_email (or_empty (email c)) (length (dict_get ev ''email'' [])) = (conf, meth)"
    by fastforce
  from mk_FieldConfidence_ok [OF calc_email_bounds [OF cm]] True cm
  show ?thesis by (simp add: email_score_def)
qed

lemma phone_score_ok: "\<exists>fc. phone_score c ev = Inr fc"
proof (cases "truthy (phone c)")
  case False
  then show ?thesis by (simp add: phone_score_def mk_FieldConfidence_def)
next
  case True
  obtain conf meth where cm:
    "calc_phone (or_empty (phone c)) (length (dict_get ev ''phone'' [])) = (conf, meth)"
    by fastforce
  from mk_FieldConfidence_ok [OF calc_phone_bounds [OF cm]] True cm
  show ?thesis by (simp add: phone_score_def)
qed

lemma full_name_score_ok: "\<exists>fc. full_name_score c ev email_idx = Inr fc"
proof (cases "truthy (full_name c)")
  case False
  then show ?thesis by (simp add: full_name_score_def mk_FieldConfidence_def)
next
  case True
  define is_top where "is_top =
    list_ex (\<lambda>e. starts_with (ev_locator e) ''docx:paragraph:0'' \<or>
                   starts_with (ev_locator e) ''pdf:page:1:line:'')
      (dict_get ev ''full_name'' [])"
  define mid where "mid =
    (contains (or_empty (full_name c)) '' '' \<and> length (split_ws (or_empty (full_name c))) \<ge> 3)"
  obtain conf meth where cm:
    "calc_full_name (or_empty (full_name c)) (email_idx \<noteq> None) is_top True mid = (conf, meth)"
    by fastforce
  from mk_FieldConfidence_ok [OF calc_full_name_bounds [OF cm]] True cm
  show ?thesis
    unfolding full_name_score_def Let_def is_top_def [symmetric] mid_def [symmetric]
    by simp
qed

lemma location_score_ok: "\<exists>fc. location_score c = Inr fc"
proof (cases "truthy (location c)")
  case False
  then show ?thesis by (simp add: location_score_def mk_FieldConfidence_def)
next
  case True
  define hc where "hc = contains (or_empty (location c)) '',''"
  obtain conf meth where cm:
    "calc_location (or_empty (location c)) ''regex_pattern'' hc hc = (conf, meth)"
    by fastforce
  from mk_FieldConfidence_ok [OF calc_location_bounds [OF cm]] True cm
  show ?thesis
    unfolding location_score_def Let_def hc_def [symmetric] by simp
qed

lemma links_score_ok: "\<exists>fc. links_score c = Inr fc"
  by (simp add: links_score_def mk_FieldConfidence_def)

lemma skills_score_ok: "\<exists>fc. skills_score c = Inr fc"
  by (simp add: skills_score_def mk_FieldConfidence_def)

lemma experiences_score_ok: "\<exists>fc. experiences_score c = Inr fc"
  by (simp add: experiences_score_def mk_FieldConfidence_def)

lemma score_fields_keys:
  "\<exists>cs. score_fields c ev email_idx = Inr cs \<and>
        dom cs = {''email'', ''phone'', ''full_name'', ''location'', ''links'', ''skills'',
                  ''experiences''}"
proof -
  obtain e p n l k s x where
    "email_score c ev = Inr e" "phone_score c ev = Inr p"
    "full_name_score c ev email_idx = Inr n" "location_score c = Inr l"
    "links_score c = Inr k" "skills_score c = Inr s" "experiences_score c = Inr x"
    using email_score_ok phone_score_ok full_name_score_ok location_score_ok
      links_score_ok skills_score_ok experiences_score_ok by metis
  then show ?thesis
    by (auto simp: score_fields_def bind_err_def)
qed

lemma setdefault_empty_dom: "dom (setdefault_empty ev key) = insert key (dom ev)"
  by (auto simp: setdefault_empty_def split: option.splits)

lemma stable_keys_dom: "dom (foldl setdefault_empty ev ks) = set ks \<union> dom ev"
  by (induction ks arbitrary: ev) (auto simp: setdefault_empty_dom)

text \<open>
  Claim C10. Whatever the earlier steps extracted, the response is built, its
  \<^verbatim>\<open>confidence_scores\<close> has exactly the seven keys email, phone, full_name, location,
  links, skills and experiences (never education), and its evidence map has the key
  education.
\<close>

theorem confidence_scores_keys:
  "\<exists>resp. score_and_respond c ev email_idx ws = Inr resp \<and>
          dom (confidence_scores resp) =
            {''email'', ''phone'', ''full_name'', ''location'', ''links'', ''skills'',
             ''experiences''} \<and>
          ''education'' \<notin> dom (confidence_scores resp) \<and>
          ''education'' \<in> dom (evidence_map resp)"
proof -
  obtain cs where cs: "score_fields c ev email_idx = Inr cs"
    and d: "dom cs = {''email'', ''phone'', ''full_name'', ''location'', ''links'', ''skills'',
                      ''experiences''}"
    using score_fields_keys [of c ev email_idx] by (elim exE conjE)
  have ne: "''education'' \<notin> dom cs" unfolding d by simp
  have ev: "''education'' \<in> dom (foldl setdefault_empty ev stable_keys)"
    unfolding stable_keys_dom by (simp add: stable_keys_def)
  obtain resp where r: "score_and_respond c ev email_idx ws = Inr resp"
    and r1: "confidence_scores resp = cs"
    and r2: "evidence_map resp = foldl setdefault_empty ev stable_keys"
    unfolding score_and_respond_def bind_err_def cs Let_def by simp
  show ?thesis
  proof (intro exI conjI)
    show "score_and_respond c ev email_idx ws = Inr resp" by (rule r)
    show "dom (confidence_scores resp) =
            {''email'', ''phone'', ''full_name'', ''location'', ''links'', ''skills'',
             ''experiences''}"
      unfolding r1 by (rule d)
    show "''education'' \<notin> dom (confidence_scores resp)" unfolding r1 by (rule ne)
    show "''education'' \<in> dom (evidence_map resp)" unfolding r2 by (rule ev)
  qed
qed

section \<open>Line helpers\<close>

text \<open>A source line: its locator and its text.\<close>

type_synonym line = "string \<times> string"

text \<open>
  \<^verbatim>\<open>normalize_pdf_wordbreaks\<close> (education_parser.py): removes
  \<^verbatim>\<open>(?<=[A-Za-z])\s{2,}(?=[A-Za-z])\<close>, then \<^verbatim>\<open>(?<=[a-z])\s(?=[a-z])\<close>.
\<close>

definition wordbreak_wide :: rx where
  "wordbreak_wide = Seq [Behind [Upper, Lower], Rep (Set [Sp]) 2 None, Ahead (Set [Upper, Lower])]"

definition wordbreak_single :: rx where
  "wordbreak_single = Seq [Behind [Lower], Set [Sp], Ahead (Set [Lower])]"

definition normalize_pdf_wordbreaks :: "string \<Rightarrow> string" where
  "normalize_pdf_wordbreaks s =
     (if s = [] then s
      else re_sub False wordbreak_single (\<lambda>m. [])
             (re_sub False wordbreak_wide (\<lambda>m. []) s))"

text \<open>\<^verbatim>\<open>re.sub(r"\s+", " ", s)\<close>.\<close>

definition collapse_spaces :: "string \<Rightarrow> string" where
  "collapse_spaces s = re_sub False (Plus (Set [Sp])) (\<lambda>m. '' '') s"

datatype section_type = Education_section | Experience_section

definition EDUCATION_SECTION_HEADERS :: "string list" where
  "EDUCATION_SECTION_HEADERS =
     [''education'', ''academic background'', ''education & training'', ''academic'',
      ''schooling'', ''academic experience'']"

definition EXPERIENCE_SECTION_HEADERS :: "string list" where
  "EXPERIENCE_SECTION_HEADERS =
     [''experience'', ''professional experience'', ''work experience'', ''employment'',
      ''work history'', ''career'', ''career experience'',
      ''career experience & achievements'', ''career experience and achievements'']"

definition DEGREE_KEYWORDS :: "string list" where
  "DEGREE_KEYWORDS =
     [''bachelor of'', ''bachelor's'', ''master of'', ''master's'', ''associate of'',
      ''associate's'', ''b.s.'', ''b.a.'', ''m.s.'', ''m.a.'', ''m.b.a.'', ''ph.d.'', ''phd'',
      ''doctorate'', ''doctoral'', ''graduate degree'', ''postgraduate'', ''diploma'',
      ''certificate'', ''b.s. in'', ''b.a. in'', ''m.s. in'', ''m.a. in'']"

definition INSTITUTION_KEYWORDS :: "string list" where
  "INSTITUTION_KEYWORDS =
     [''university'', ''college'', ''institute'', ''institute of'', ''school'', ''academy'',
      ''high school'', ''secondary school'', ''prep school'', ''polytechnic'',
      ''state university'', ''community college'', ''trade school'']"

definition HIGH_SCHOOL_KEYWORDS :: "string list" where
  "HIGH_SCHOOL_KEYWORDS = [''high school'', ''secondary school'', ''prep school'', ''preparatory'']"

definition STUDY_ABROAD_KEYWORDS :: "string list" where
  "STUDY_ABROAD_KEYWORDS =
     [''study abroad'', ''institute of study abroad'', ''dis study abroad'', ''semester abroad'',
      ''year abroad'']"

definition detect_section_type :: "string \<Rightarrow> section_type option" where
  "detect_section_type line_text =
     (let normalized = collapse_spaces (lower (normalize_pdf_wordbreaks (strip line_text)))
      in if normalized \<in> set EDUCATION_SECTION_HEADERS then Some Education_section
         else if normalized \<in> set EXPERIENCE_SECTION_HEADERS then Some Experience_section
         else None)"

definition has_degree_keyword :: "string \<Rightarrow> bool" where
  "has_degree_keyword text = contains_any (lower text) DEGREE_KEYWORDS"

definition is_high_school :: "string \<Rightarrow> bool" where
  "is_high_school text = contains_any (lower text) HIGH_SCHOOL_KEYWORDS"

definition is_institution_keyword :: "string \<Rightarrow> bool" where
  "is_institution_keyword text = contains_any (lower text) INSTITUTION_KEYWORDS"

definition is_study_abroad :: "string \<Rightarrow> bool" where
  "is_study_abroad text = contains_any (lower text) STUDY_ABROAD_KEYWORDS"

text \<open>
  \<^verbatim>\<open>_despace_if_needed\<close> (line_parser.py), with
  \<^verbatim>\<open>SPACED_CHARS_RE = ^(?:[A-Za-z0-9@.()\-\+]\s+){2,}[A-Za-z0-9@.()\-\+]+$\<close>.
\<close>

definition spaced_char :: rx where
  "spaced_char = Set [Upper, Lower, Dg, C CHR ''@'', C CHR ''.'', C CHR ''('', C CHR '')'',
                      C CHR ''-'', C CHR ''+'']"

definition SPACED_CHARS_RE :: rx where
  "SPACED_CHARS_RE =
     Seq [Bol, Rep (Cat spaced_char (Plus (Set [Sp]))) 2 None, Plus spaced_char, Eol]"

definition despace_if_needed :: "string \<Rightarrow> string" where
  "despace_if_needed text =
     (let t = strip text
      in if t = [] then t
         else if re_matches False SPACED_CHARS_RE t
         then (let parts = re_split False (Rep (Set [Sp]) 2 None) t;
                   parts' = map (\<lambda>p. concat (split_ws p)) parts
               in join '' '' (filter (\<lambda>p. p \<noteq> []) parts'))
         else t)"

text \<open>
  \<^verbatim>\<open>_normalize_for_search\<close>: the six job-title patterns, spaces around punctuation,
  camel-case and letter/digit boundaries, whitespace collapsed.
\<close>

definition grp :: "mstate \<Rightarrow> nat \<Rightarrow> string" where
  "grp m n = or_empty (group m n)"

definition job_title_patterns :: "(rx \<times> (mstate \<Rightarrow> string)) list" where
  "job_title_patterns =
     [(Cat (Lit ''TERRITORY'') (Grp 1 (Set [Upper])), \<lambda>m. ''TERRITORY '' @ grp m 1),
      (Cat (Lit ''MANAGER'') (Grp 1 (Set [Upper])), \<lambda>m. ''MANAGER '' @ grp m 1),
      (Cat (Lit ''KEY'') (Grp 1 (Set [Upper])), \<lambda>m. ''KEY '' @ grp m 1),
      (Cat (Lit ''ACCOUNT'') (Grp 1 (Set [Upper])), \<lambda>m. ''ACCOUNT '' @ grp m 1),
      (Cat (Lit ''GROUP'') (Grp 1 (Set [Upper])), \<lambda>m. ''GROUP '' @ grp m 1),
      (Seq [Grp 1 (Set [Upper]), Lit ''OF'', Grp 2 (Set [Upper])],
       \<lambda>m. grp m 1 @ '' OF '' @ grp m 2)]"

definition NO_SPACE_PUNCT_RE :: rx where
  "NO_SPACE_PUNCT_RE =
     Grp 1 (Set [C CHR '','', C CHR '';'', C CHR ''/'', C CHR ''|'', C CHR ''('', C CHR '')'',
                 C CHR ''['', C CHR '']''])"

definition CAMEL_BOUNDARY_RE :: rx where
  "CAMEL_BOUNDARY_RE = Cat (Grp 1 (Set [Lower])) (Grp 2 (Set [Upper]))"

definition LETTER_DIGIT_BOUNDARY_RE :: rx where
  "LETTER_DIGIT_BOUNDARY_RE =
     Alt (Cat (Grp 1 (Set [Upper, Lower])) (Grp 2 (Set [Dg])))
         (Cat (Grp 3 (Set [Dg])) (Grp 4 (Set [Upper, Lower])))"

definition normalize_for_search :: "string \<Rightarrow> string" where
  "normalize_for_search text =
     (let t = despace_if_needed (strip text)
      in if t = [] then t
         else let t1 = foldl (\<lambda>acc (pattern, replacement). re_sub False pattern replacement acc)
                         t job_title_patterns;
                  t2 = re_sub False NO_SPACE_PUNCT_RE (\<lambda>m. '' '' @ grp m 1 @ '' '') t1;
                  t3 = re_sub False CAMEL_BOUNDARY_RE (\<lambda>m. grp m 1 @ '' '' @ grp m 2) t2;
                  t4 = re_sub False LETTER_DIGIT_BOUNDARY_RE
                         (\<lambda>m. if truthy (group m 1) then grp m 1 @ '' '' @ grp m 2
                               else grp m 3 @ '' '' @ grp m 4) t3
              in join '' '' (split_ws t4))"

definition HEADER_BLACKLIST :: "string list" where
  "HEADER_BLACKLIST =
     [''objective'', ''summary'', ''professional summary'', ''profile'', ''experience'',
      ''work experience'', ''employment'', ''employment history'', ''professional experience'',
      ''education'', ''skills'', ''technical skills'', ''soft skills'', ''core competencies'',
      ''technical proficiencies'', ''competencies'', ''proficiencies'', ''areas of expertise'',
      ''expertise'', ''strengths'', ''projects'', ''certifications'', ''certification'',
      ''licenses'', ''awards'', ''publications'', ''volunteer'', ''volunteering'',
      ''volunteer experience'', ''interests'', ''hobbies'', ''references'',
      ''additional information'']"

definition is_header_line :: "string \<Rightarrow> bool" where
  "is_header_line text =
     (let raw = strip text
      in if raw = [] then True
         else let t = normalize_for_search (normalize_pdf_wordbreaks raw);
                  key = lower (strip (collapse_spaces t))
              in if key \<in> set HEADER_BLACKLIST then True
                 else if isupper t \<and> \<not> contains t '' '' then True
                 else False)"

text \<open>\<^verbatim>\<open>BULLET_RE = ^[\s\<bullet>\<bullet>\-*>+]+\<close>: white space, the two bullets, dash, star, angle, plus.\<close>

definition BULLET_RE :: rx where
  "BULLET_RE =
     Seq [Bol, Plus (Set [Sp, U bullet_round, U bullet_black, C CHR ''-'', C CHR ''*'',
                          C CHR ''>'', C CHR ''+''])]"

definition is_bullet :: "string \<Rightarrow> bool" where
  "is_bullet t = re_matches False BULLET_RE t"

text \<open>\<^verbatim>\<open>_extract_location_from_line\<close>: the last comma followed by a state or country.\<close>

definition US_STATES :: "string list" where
  "US_STATES =
     [''AL'', ''AK'', ''AZ'', ''AR'', ''CA'', ''CO'', ''CT'', ''DE'', ''FL'', ''GA'', ''HI'', ''ID'',
      ''IL'', ''IN'', ''IA'', ''KS'', ''KY'', ''LA'', ''ME'', ''MD'', ''MA'', ''MI'', ''MN'', ''MS'',
      ''MO'', ''MT'', ''NE'', ''NV'', ''NH'', ''NJ'', ''NM'', ''NY'', ''NC'', ''ND'', ''OH'', ''OK'',
      ''OR'', ''PA'', ''RI'', ''SC'', ''SD'', ''TN'', ''TX'', ''UT'', ''VT'', ''VA'', ''WA'', ''WV'',
      ''WI'', ''WY'', ''DC'']"

definition MULTI_WORD_STATES :: "string list" where
  "MULTI_WORD_STATES =
     [''new york'', ''new mexico'', ''new hampshire'', ''north carolina'', ''north dakota'',
      ''south carolina'', ''south dakota'', ''west virginia'', ''puerto rico'']"

text \<open>\<^verbatim>\<open>s.strip(chars)\<close>, the characters given as code points.\<close>

definition strip_chars :: "string list \<Rightarrow> string \<Rightarrow> string" where
  "strip_chars chars s =
     concat (rev (dropWhile (\<lambda>cp. cp \<in> set chars) (rev (dropWhile (\<lambda>cp. cp \<in> set chars) (cps s)))))"

definition location_punct :: "string list" where
  "location_punct = ['','', ''.'', '';'', '':'', en_dash, ''-'']"

text \<open>For every comma of the text, left to right: the text before it and the text after it.\<close>

fun comma_splits :: "string \<Rightarrow> string \<Rightarrow> (string \<times> string) list" where
  "comma_splits pre [] = []"
| "comma_splits pre (c # cs) =
     (if c = CHR '','' then (rev pre, cs) # comma_splits (c # pre) cs
      else comma_splits (c # pre) cs)"

definition capitalised_word :: rx where
  "capitalised_word = Seq [Bol, Set [Upper], Plus (Set [Lower]), Eol]"

definition city_word :: rx where
  "city_word = Seq [Bol, Set [Upper], Star (Set [Lower]), Eol]"

text \<open>The last one or two title-cased words before the comma; \<open>ws\<close> is reversed.\<close>

fun city_words_of :: "string list \<Rightarrow> string list \<Rightarrow> string list" where
  "city_words_of [] acc = acc"
| "city_words_of (w # ws) acc =
     (if re_matches False city_word w
      then (if length (w # acc) \<ge> 2 then w # acc else city_words_of ws (w # acc))
      else acc)"

definition invalid_city_keywords :: "string list" where
  "invalid_city_keywords =
     [''study'', ''abroad'', ''institute'', ''program'', ''semester'', ''trimester'', ''year'']"

definition location_at_comma :: "string \<times> string \<Rightarrow> string option" where
  "location_at_comma ba =
     (case ba of (pre_text, post_text) \<Rightarrow>
        let words_after = split_ws (strip post_text)
        in if words_after = [] then None
           else let first_word = strip_chars location_punct (hd words_after);
                    two_words = (if length words_after \<ge> 2
                                 then strip_chars location_punct (join '' '' (take 2 words_after))
                                 else []);
                    is_state_code = (upper first_word \<in> set US_STATES);
                    is_multi_word = (lower two_words \<in> set MULTI_WORD_STATES);
                    is_valid_location = (re_matches False capitalised_word first_word \<and>
                                         py_len first_word \<ge> 4);
                    location_name = (if is_multi_word then two_words
                                     else if is_state_code then first_word
                                     else if is_valid_location then first_word
                                     else [])
                in if location_name = [] then None
                   else let city_words = city_words_of (rev (split_ws (strip pre_text))) []
                        in if city_words = [] then None
                           else let city = join '' '' city_words
                                in if contains_any (lower city) invalid_city_keywords then None
                                   else Some (city @ '', '' @ location_name))"

fun first_some :: "('a \<Rightarrow> 'b option) \<Rightarrow> 'a list \<Rightarrow> 'b option" where
  "first_some f [] = None"
| "first_some f (x # xs) = (case f x of Some y \<Rightarrow> Some y | None \<Rightarrow> first_some f xs)"

definition extract_location_from_line :: "string \<Rightarrow> string option" where
  "extract_location_from_line text = first_some location_at_comma (rev (comma_splits [] text))"

text \<open>\<^verbatim>\<open>_format_location\<close>.\<close>

definition format_location :: "string \<Rightarrow> string" where
  "format_location s =
     (let s1 = re_sub False (Cat (Plus (Set [Sp])) (Lit '','')) (\<lambda>m. '','') s;
          s2 = re_sub False (Cat (Lit '','') (Star (Set [Sp]))) (\<lambda>m. '', '') s1
      in strip (join '' '' (split_ws s2)))"

section \<open>Education entries: grouping\<close>

text \<open>
  \<^verbatim>\<open>_group_education_entries\<close> (inside \<^verbatim>\<open>parse_lines_to_response\<close>): the lines
  after the section header, grouped into entry blocks. \<open>group_education_loop\<close> is the
  body of the \<^verbatim>\<open>for\<close> loop from index \<open>idx\<close> on, with the blocks closed so far and
  the open block.
\<close>

definition major_section_re :: rx where
  "major_section_re =
     Seq [Bol, Set [Upper], Star (Set [Upper, Lower, Sp, C CHR ''/'', C CHR ''&'', C CHR ''-'']), Eol]"

definition education_entry_starts :: "string \<Rightarrow> line list \<Rightarrow> bool" where
  "education_entry_starts t current_entry =
     (if is_institution_keyword t then True
      else if is_high_school t then True
      else if is_study_abroad t then True
      else if has_degree_keyword t \<and> current_entry = [] then True
      else if \<not> is_bullet t \<and> extract_location_from_line t \<noteq> None \<and> py_len t < 150
      then (if current_entry = [] then True
            else let prev_text = join '' '' (map snd current_entry)
                 in extract_location_from_line prev_text \<noteq> None)
      else False)"

fun group_education_loop ::
  "nat \<Rightarrow> nat \<Rightarrow> line list \<Rightarrow> line list list \<Rightarrow> line list \<Rightarrow> line list list" where
  "group_education_loop section_start_idx idx [] entries current_entry =
     (if current_entry \<noteq> [] then entries @ [current_entry] else entries)"
| "group_education_loop section_start_idx idx ((locator, text) # later) entries current_entry =
     (let t = strip text
      in if t = [] then group_education_loop section_start_idx (Suc idx) later entries current_entry
         else if is_header_line text \<and> \<not> is_bullet t \<and> idx > section_start_idx + 2 \<and>
                 re_matches False major_section_re t \<and> length (split_ws t) \<le> 5
         then (if current_entry \<noteq> [] then entries @ [current_entry] else entries)
         else if education_entry_starts t current_entry \<and> current_entry \<noteq> []
         then group_education_loop section_start_idx (Suc idx) later
                (entries @ [current_entry]) [(locator, text)]
         else group_education_loop section_start_idx (Suc idx) later
                entries (current_entry @ [(locator, text)]))"

definition group_education_entries :: "line list \<Rightarrow> nat \<Rightarrow> line list list" where
  "group_education_entries lines_to_group section_start_idx =
     group_education_loop section_start_idx (section_start_idx + 1)
       (drop (section_start_idx + 1) lines_to_group) [] []"

section \<open>Education entries: parsing\<close>

text \<open>\<^verbatim>\<open>s.find(sub)\<close> is \<open>None\<close> for \<^verbatim>\<open>-1\<close>; \<^verbatim>\<open>s[:i]\<close> and \<^verbatim>\<open>s[i:]\<close> for such an index
  (\<^verbatim>\<open>s[:-1]\<close> drops the last character).\<close>

fun list_starts_with :: "'a list \<Rightarrow> 'a list \<Rightarrow> bool" where
  "list_starts_with xs [] = True"
| "list_starts_with [] (p # ps) = False"
| "list_starts_with (x # xs) (p # ps) = (x = p \<and> list_starts_with xs ps)"

fun list_find :: "'a list \<Rightarrow> 'a list \<Rightarrow> nat \<Rightarrow> nat option" where
  "list_find [] sub n = (if sub = [] then Some n else None)"
| "list_find (x # xs) sub n =
     (if list_starts_with (x # xs) sub then Some n else list_find xs sub (Suc n))"

definition py_find :: "string \<Rightarrow> string \<Rightarrow> nat option" where
  "py_find s sub = list_find (cps s) (cps sub) 0"

definition py_upto :: "string \<Rightarrow> nat option \<Rightarrow> string" where
  "py_upto s i = (case i of None \<Rightarrow> concat (butlast (cps s)) | Some n \<Rightarrow> concat (take n (cps s)))"

definition rstrip_commas :: "string \<Rightarrow> string" where
  "rstrip_commas s = rev (dropWhile (\<lambda>c. c = CHR '','') (rev s))"

text \<open>\<^verbatim>\<open>s.split(":", 1)\<close>: the text before the first colon and the text after it.\<close>

definition split_first_colon :: "string \<Rightarrow> string \<times> string" where
  "split_first_colon s =
     (takeWhile (\<lambda>c. c \<noteq> CHR '':'') s, drop 1 (dropWhile (\<lambda>c. c \<noteq> CHR '':'') s))"

text \<open>\<^verbatim>\<open>extract_degree_from_text\<close>: the three patterns, the longer names first.\<close>

definition opt_in :: rx where
  "opt_in = Opt (Cat (Plus (Set [Sp])) (Lit ''in''))"

definition degree_patterns :: "rx list" where
  "degree_patterns =
     [Grp 1 (Alts [Lit ''bachelor of science'', Lit ''bachelor's degree'',
                   Lit ''master of science'', Lit ''master's degree'', Lit ''associate of'',
                   Lit ''bachelor of arts'', Lit ''master of arts'', Lit ''doctor of philosophy'']),
      Grp 1 (Alts [Cat (Lit ''b.s.'') opt_in, Cat (Lit ''b.a.'') opt_in, Cat (Lit ''m.s.'') opt_in,
                   Cat (Lit ''m.a.'') opt_in, Cat (Lit ''m.b.a.'') opt_in, Cat (Lit ''ph.d.'') opt_in]),
      Grp 1 (Alts [Lit ''bachelor'', Lit ''master'', Lit ''associate'', Lit ''doctorate'',
                   Lit ''doctoral'', Lit ''phd'', Lit ''graduate degree'', Lit ''postgraduate degree''])]"

definition degree_by_pattern :: "string \<Rightarrow> rx \<Rightarrow> string option" where
  "degree_by_pattern text pattern =
     (case re_search False pattern (lower text) of
        None \<Rightarrow> None
      | Some (start, m, matched) \<Rightarrow> Some (strip (py_slice text start (start + py_len matched))))"

definition extract_degree_from_text :: "string \<Rightarrow> string option" where
  "extract_degree_from_text text0 =
     first_some (degree_by_pattern (normalize_pdf_wordbreaks text0)) degree_patterns"

text \<open>
  The field after \<^verbatim>\<open>in\<close>:
  \<^verbatim>\<open>\bin\s+([A-Za-z\s&/\-]+?)(?:\s*(?:,|$|[\n\r]))\<close>, and the variant that also stops
  at a bullet, a dash or a star.
\<close>

definition field_chars :: rx where
  "field_chars = Set [Upper, Lower, Sp, C CHR ''&'', C CHR ''/'', C CHR ''-'']"

definition in_field_re :: rx where
  "in_field_re =
     Seq [Wb, Lit ''in'', Plus (Set [Sp]), Grp 1 (PlusLazy field_chars),
          Star (Set [Sp]), Alts [Lit '','', Eol, Set [C (CHR 0x0A), C (CHR 0x0D)]]]"

definition field_stop :: rx where
  "field_stop =
     Alts [Lit '','', Eol,
           Set [C (CHR 0x0A), C (CHR 0x0D), U bullet_black, U bullet_round, C CHR ''-'', C CHR ''*'']]"

definition in_field_bullet_re :: rx where
  "in_field_bullet_re =
     Seq [Wb, Lit ''in'', Plus (Set [Sp]), Grp 1 (PlusLazy field_chars), Star (Set [Sp]), field_stop]"

definition degree_in_field_re :: "string \<Rightarrow> rx" where
  "degree_in_field_re deg =
     Seq [Lit deg, Plus (Set [Sp]), Lit ''in'', Plus (Set [Sp]), Grp 1 (PlusLazy field_chars),
          Star (Set [Sp]), field_stop]"

definition degree_then_field_re :: rx where
  "degree_then_field_re =
     Seq [Alts [Lit ''bachelor'', Lit ''master'', Lit ''associate'', Lit ''phd'', Lit ''doctorate''],
          Plus (Set [Sp]), Opt (Cat (Lit ''of'') (Plus (Set [Sp]))), Plus (Set [Lower]),
          Plus (Set [Sp]), Grp 1 (PlusLazy field_chars), Alts [Lit '','', Eol]]"

definition extract_field_of_study_from_degree_line :: "string \<Rightarrow> string option" where
  "extract_field_of_study_from_degree_line text0 =
     (let text = normalize_pdf_wordbreaks text0;
          fallback = (case re_search True degree_then_field_re text of
                        None \<Rightarrow> None
                      | Some (start, m, matched) \<Rightarrow> Some (strip (grp m 1)))
      in case re_search True in_field_re text of
           None \<Rightarrow> fallback
         | Some (start, m, matched) \<Rightarrow>
             let field = strip (grp m 1)
             in if py_len field > 2 \<and> lower field \<notin> set [''states'', ''united states'']
                then Some (if contains field '','' then strip (takeWhile (\<lambda>c. c \<noteq> CHR '','') field)
                           else field)
                else fallback)"

text \<open>\<^verbatim>\<open>classify_entry_as_education\<close>.\<close>

definition classify_entry_as_education :: "string list \<Rightarrow> string option \<Rightarrow> bool" where
  "classify_entry_as_education entry_lines current_section =
     (let combined_text = lower (join '' '' entry_lines)
      in if has_degree_keyword combined_text then True
         else if is_high_school combined_text then True
         else if is_study_abroad combined_text then True
         else if current_section = Some ''education'' \<and> is_institution_keyword combined_text then True
         else if current_section = Some ''education'' then True
         else False)"

text \<open>Study-abroad entries: the city after the last comma, and the programme abbreviations.\<close>

definition study_abroad_city_re :: rx where
  "study_abroad_city_re =
     Seq [Lit '','', Plus (Set [Sp]),
          Grp 1 (Seq [Set [Upper], Plus (Set [Lower]),
                      Star (Seq [Plus (Set [Sp]), Set [Upper], Plus (Set [Lower])])]),
          Eol]"

definition extract_location_from_study_abroad :: "string \<Rightarrow> string option" where
  "extract_location_from_study_abroad text =
     (case re_search False study_abroad_city_re text of
        None \<Rightarrow> None
      | Some (start, m, matched) \<Rightarrow>
          let loc = strip (grp m 1)
          in if py_len loc \<ge> 3 \<and> \<not> list_ex is_digit loc then Some loc else None)"

definition STUDY_ABROAD_ABBREVIATIONS :: "(string \<times> string) list" where
  "STUDY_ABROAD_ABBREVIATIONS =
     [(''dis'', ''Danish Institute of Study Abroad''),
      (''isa'', ''Institute for Study Abroad''),
      (''aifs'', ''American Institute for Foreign Study''),
      (''ciee'', ''Council on International Educational Exchange''),
      (''saf'', ''Study Abroad Foundation'')]"

definition trailing_study_abroad_re :: rx where
  "trailing_study_abroad_re =
     Seq [Plus (Set [Sp]), Set [C CHR ''S'', C CHR ''s''], Lit ''tudy'', Plus (Set [Sp]),
          Set [C CHR ''A'', C CHR ''a''], Lit ''broad'', Star (Set [Sp]), Eol]"

fun expand_abbreviation_loop :: "(string \<times> string) list \<Rightarrow> string \<Rightarrow> string" where
  "expand_abbreviation_loop [] institution_text = institution_text"
| "expand_abbreviation_loop ((abbrev, expansion) # others) institution_text =
     (let pattern = Seq [Bol, Lit abbrev, Plus (Set [Sp])]
      in if re_matches True pattern institution_text
         then (let expanded = re_sub True pattern (\<lambda>m. expansion @ '' '') institution_text
               in if contains (lower expansion) ''study abroad'' \<and>
                     ends_with (lower expanded) ''study abroad''
                  then strip (strip (re_sub False trailing_study_abroad_re (\<lambda>m. []) expanded))
                  else strip expanded)
         else expand_abbreviation_loop others institution_text)"

definition expand_study_abroad_abbreviation :: "string \<Rightarrow> string" where
  "expand_study_abroad_abbreviation institution_text =
     expand_abbreviation_loop STUDY_ABROAD_ABBREVIATIONS institution_text"

text \<open>
  \<^verbatim>\<open>DATE_RANGE_RE\<close> (line_parser.py), matched ignoring case: a date, a dash or
  \<^verbatim>\<open>to\<close>, and \<^verbatim>\<open>Present\<close>, \<^verbatim>\<open>Current\<close> or a second date.
\<close>

definition month_name :: rx where
  "month_name =
     Alts [Lit ''Jan'', Lit ''Feb'', Lit ''Mar'', Lit ''Apr'', Lit ''May'', Lit ''Jun'', Lit ''Jul'',
           Lit ''Aug'', Lit ''Sep'', Lit ''Oct'', Lit ''Nov'', Lit ''Dec'', Lit ''January'',
           Lit ''February'', Lit ''March'', Lit ''April'', Lit ''May'', Lit ''June'', Lit ''July'',
           Lit ''August'', Lit ''September'', Lit ''October'', Lit ''November'', Lit ''December'']"

definition dash_or_slash :: rx where
  "dash_or_slash = Set [C CHR ''-'', C CHR ''/'']"

definition date_re :: rx where
  "date_re =
     Alts [Seq [Times (Set [Dg]) 1 2, Opt dash_or_slash, Times (Set [Dg]) 1 2, Opt dash_or_slash,
                Times (Set [Dg]) 2 4],
           Seq [month_name, Plus (Set [Sp]), Times (Set [Dg]) 4 4],
           Times (Set [Dg]) 4 4]"

definition range_sep :: rx where
  "range_sep = Alts [Lit ''-'', Lit en_dash, Lit ''to'']"

definition DATE_RANGE_RE :: rx where
  "DATE_RANGE_RE =
     Seq [Grp 1 date_re, Star (Set [Sp]), range_sep, Star (Set [Sp]),
          Alts [Lit ''Present'', Lit ''Current'', Grp 2 date_re]]"

definition range_split_re :: rx where
  "range_split_re = Seq [Star (Set [Sp]), range_sep, Star (Set [Sp])]"

text \<open>
  The bullet pattern of \<^verbatim>\<open>parse_education_entry\<close>:
  \<^verbatim>\<open>^[\s\<bullet>\<bullet>\-\*\<rightarrow>\>]+\<close>, and the study-abroad line
  \<^verbatim>\<open>^(?P<city>[^,]+),\s*(?P<country>[^,]+),\s*(?P<term>.+?)\s*[\<emdash>-]\s*(?P<year>(19|20)\d{2})\s*$\<close>.
\<close>

definition edu_bullet_re :: rx where
  "edu_bullet_re =
     Seq [Bol, Plus (Set [Sp, U bullet_round, U bullet_black, C CHR ''-'', C CHR ''*'',
                          U arrow_right, C CHR ''>''])]"

definition STUDY_ABROAD_LOC_LINE :: rx where
  "STUDY_ABROAD_LOC_LINE =
     Seq [Bol, Grp 1 (Plus (NSet [C CHR '',''])), Lit '','', Star (Set [Sp]),
          Grp 2 (Plus (NSet [C CHR '',''])), Lit '','', Star (Set [Sp]),
          Grp 3 (PlusLazy Any), Star (Set [Sp]), Set [U en_dash, C CHR ''-''], Star (Set [Sp]),
          Grp 4 (Seq [Grp 5 (Alt (Lit ''19'') (Lit ''20'')), Times (Set [Dg]) 2 2]),
          Star (Set [Sp]), Eol]"

definition trimester_re :: rx where
  "trimester_re =
     Seq [Grp 1 (Alts [Lit ''Spring'', Lit ''Fall'', Lit ''Winter'', Lit ''Summer'']), Plus (Set [Sp]),
          Grp 2 (Alts [Lit ''Trimester'', Lit ''Semester'', Lit ''Term'']), Plus (Set [Sp]),
          Grp 3 (Times (Set [Dg]) 4 4)]"

definition year_only_re :: rx where
  "year_only_re = Seq [Bol, Times (Set [Dg]) 4 4, Eol]"

definition detail_length_ok :: "string \<Rightarrow> bool" where
  "detail_length_ok s = (5 < py_len s \<and> py_len s < 500)"

text \<open>
  The first part of \<^verbatim>\<open>parse_education_entry\<close>: degree and field of study, from the
  text after a colon on the first line (\<open>degree_part\<close>), else from the whole block.
\<close>

definition degree_from_part :: "string \<Rightarrow> string option \<times> string option" where
  "degree_from_part degree_part =
     (case extract_degree_from_text degree_part of
        Some deg \<Rightarrow>
          (if deg \<noteq> []
           then (case re_search True in_field_re degree_part of
                   Some (start, m, matched) \<Rightarrow>
                     let field = strip (grp m 1)
                     in if field \<noteq> [] \<and> py_len field > 2 then (Some (strip deg), Some field)
                        else (Some (strip deg), None)
                 | None \<Rightarrow>
                     (case extract_field_of_study_from_degree_line degree_part of
                        Some field \<Rightarrow> (Some (strip deg), if field \<noteq> [] then Some field else None)
                      | None \<Rightarrow> (Some (strip deg), None)))
           else (Some degree_part, None))
      | None \<Rightarrow> (Some degree_part, None))"

definition degree_from_block ::
  "string \<Rightarrow> string \<Rightarrow> string option \<Rightarrow> string option \<times> string option" where
  "degree_from_block combined_text first_text degree_part =
     (let df = (case extract_degree_from_text combined_text of
                  Some deg \<Rightarrow>
                    (if deg \<noteq> []
                     then (case re_search True in_field_bullet_re combined_text of
                             Some (start, m, matched) \<Rightarrow>
                               let field = strip (grp m 1)
                               in if field \<noteq> [] \<and> py_len field > 2
                                  then (Some (strip deg), Some field)
                                  else (Some (strip deg), None)
                           | None \<Rightarrow> (Some (strip deg), None))
                     else (None, None))
                | None \<Rightarrow> (None, None))
      in if \<not> truthy (snd df)
         then (case extract_field_of_study_from_degree_line
                      (case degree_part of None \<Rightarrow> first_text | Some p \<Rightarrow> p) of
                 Some field \<Rightarrow> (fst df, if field \<noteq> [] then Some field else snd df)
               | None \<Rightarrow> df)
         else df)"

fun field_from_lines :: "string \<Rightarrow> string list \<Rightarrow> string option" where
  "field_from_lines deg [] = None"
| "field_from_lines deg (ln_text # others) =
     (if contains ln_text '' in '' \<and> contains (lower ln_text) (lower deg)
      then (case re_search True (degree_in_field_re deg) ln_text of
              Some (start, m, matched) \<Rightarrow>
                if py_len (strip (grp m 1)) > 2 then Some (strip (grp m 1))
                else field_from_lines deg others
            | None \<Rightarrow> field_from_lines deg others)
      else field_from_lines deg others)"

definition education_degree_and_field ::
  "string list \<Rightarrow> string option \<Rightarrow> string option \<times> string option" where
  "education_degree_and_field lines_text degree_part =
     (let first_text = hd lines_text;
          combined_text = join '' '' lines_text;
          d1 = (if truthy degree_part then degree_from_part (or_empty degree_part) else (None, None));
          d2 = (if \<not> truthy (fst d1)
                then (case degree_from_block combined_text first_text degree_part of
                        (deg, field) \<Rightarrow> (deg, if truthy field then field else snd d1))
                else d1)
      in if \<not> truthy (snd d2) \<and> truthy (fst d2)
         then (fst d2, field_from_lines (or_empty (fst d2)) lines_text)
         else d2)"

text \<open>The second part: institution and location from the first line.\<close>

definition institution_and_location :: "string \<Rightarrow> string option \<times> string option" where
  "institution_and_location institution_part =
     (if is_study_abroad institution_part
      then (case extract_location_from_study_abroad institution_part of
              Some loc \<Rightarrow>
                (Some (expand_study_abroad_abbreviation
                         (strip (rstrip_commas (strip (py_upto institution_part
                                                        (py_find institution_part loc)))))),
                 Some loc)
            | None \<Rightarrow> (Some (expand_study_abroad_abbreviation institution_part), None))
      else (case extract_location_from_line institution_part of
              Some loc \<Rightarrow>
                (Some (rstrip_commas (strip (py_upto institution_part (py_find institution_part loc)))),
                 Some loc)
            | None \<Rightarrow> (Some institution_part, None)))"

text \<open>
  The third part: the loop over the remaining lines. A bullet is a detail; a
  study-abroad line gives location, year and term; else location and dates are taken
  out and what is left of the line is a detail.
\<close>

definition remove_first :: "string \<Rightarrow> string \<Rightarrow> string" where
  "remove_first s sub =
     (case py_find s sub of
        None \<Rightarrow> s
      | Some i \<Rightarrow> concat (take i (cps s)) @ concat (drop (i + length (cps sub)) (cps s)))"

definition education_line :: "EducationEntry \<Rightarrow> string \<Rightarrow> EducationEntry" where
  "education_line e text =
     (let t = strip text
      in if t = [] then e
         else if re_matches False edu_bullet_re t
         then (let detail_text = strip (re_sub False edu_bullet_re (\<lambda>m. []) t)
               in if detail_text \<noteq> [] \<and> detail_length_ok detail_text
                  then e\<lparr>details := details e @ [detail_text]\<rparr> else e)
         else (case (if truthy (edu_location e) then None else re_match True STUDY_ABROAD_LOC_LINE t) of
                 Some (m, matched) \<Rightarrow>
                   e\<lparr>edu_location := Some (strip (grp m 1) @ '', '' @ strip (grp m 2)),
                      edu_start_date := Some (strip (grp m 4)),
                      edu_end_date := Some (strip (grp m 4)),
                      details := details e @ [strip (grp m 3)]\<rparr>
               | None \<Rightarrow>
                   let loc = extract_location_from_line t;
                       has_location = (truthy loc \<and> \<not> truthy (edu_location e));
                       e1 = (if has_location then e\<lparr>edu_location := loc\<rparr> else e);
                       dates_match = re_search True DATE_RANGE_RE t;
                       e2 = (case dates_match of
                               None \<Rightarrow> e1
                             | Some (start, m, matched) \<Rightarrow>
                                 let parts = re_split True range_split_re (strip matched)
                                 in if length parts \<ge> 2
                                    then e1\<lparr>edu_start_date :=
                                              (if \<not> truthy (edu_start_date e1)
                                               then Some (strip (parts ! 0)) else edu_start_date e1),
                                            edu_end_date := Some (strip (parts ! 1))\<rparr>
                                    else e1);
                       trimester = (if dates_match = None \<and> \<not> truthy (edu_end_date e2)
                                    then re_search True trimester_re t else None);
                       e3 = (case trimester of
                               None \<Rightarrow> e2
                             | Some (start, m, matched) \<Rightarrow>
                                 e2\<lparr>edu_end_date := Some (grp m 3),
                                    details := details e2 @ [grp m 1 @ '' '' @ grp m 2 @ '' '' @ grp m 3]\<rparr>);
                       has_dates = (dates_match \<noteq> None \<or> trimester \<noteq> None)
                   in if has_location \<or> has_dates
                      then (let r1 = (if has_location \<and> truthy (edu_location e3)
                                      then remove_first t (or_empty (edu_location e3)) else t);
                                r2 = (if has_dates then re_sub True DATE_RANGE_RE (\<lambda>m. []) r1 else r1);
                                remaining_text = strip r2
                            in if remaining_text \<noteq> [] \<and> detail_length_ok remaining_text
                               then e3\<lparr>details := details e3 @ [remaining_text]\<rparr> else e3)
                      else if detail_length_ok t then e3\<lparr>details := details e3 @ [t]\<rparr>
                      else e3))"

text \<open>The last part: junk details and orphaned years are dropped, with a warning each.\<close>

definition junk_patterns :: "string list" where
  "junk_patterns =
     [''references available upon request'', ''available upon request'', ''contact'', ''phone'',
      ''email'']"

fun clean_details :: "string list \<Rightarrow> string list \<times> string list" where
  "clean_details [] = ([], [])"
| "clean_details (detail # others) =
     (case clean_details others of (kept, ws) \<Rightarrow>
        let is_junk = contains_any (lower detail) junk_patterns;
            is_year = re_matches False year_only_re (strip detail);
            w1 = (if is_junk then [''Removed junk detail from education entry: '' @ detail] else [])
        in if \<not> is_junk \<and> strip detail \<noteq> [] \<and> \<not> is_year then (detail # kept, w1 @ ws)
           else if is_year
           then (kept, w1 @ [''Removed orphaned year from education details: '' @ detail] @ ws)
           else (kept, w1 @ ws))"

definition empty_education :: EducationEntry where
  "empty_education =
     \<lparr>institution = None, degree = None, field_of_study = None, edu_location = None,
      edu_start_date = None, edu_end_date = None, gpa = None, details = []\<rparr>"

definition parse_education_entry :: "line list \<Rightarrow> EducationEntry \<times> string list" where
  "parse_education_entry entry_lines =
     (if entry_lines = [] then (empty_education, [])
      else let lines_text = map (\<lambda>(locator, text). normalize_pdf_wordbreaks (strip text)) entry_lines;
               first_text = hd lines_text;
               remaining_lines = tl lines_text;
               is_first_line_bullet = re_matches False edu_bullet_re first_text;
               has_colon = (\<not> is_first_line_bullet \<and> contains first_text '':'');
               institution_part = (if has_colon then Some (strip (fst (split_first_colon first_text)))
                                   else if is_first_line_bullet then None
                                   else Some first_text);
               degree_part = (if has_colon then Some (strip (snd (split_first_colon first_text)))
                              else None);
               df = education_degree_and_field lines_text degree_part;
               il = (if truthy institution_part
                     then institution_and_location (or_empty institution_part)
                     else (None, None));
               e0 = empty_education\<lparr>degree := fst df, field_of_study := snd df,
                                      institution := fst il, edu_location := snd il\<rparr>;
               lines_to_process = (if is_first_line_bullet then first_text # remaining_lines
                                   else remaining_lines);
               e1 = foldl education_line e0 lines_to_process
           in case clean_details (details e1) of
                (cleaned, ws) \<Rightarrow> (e1\<lparr>details := cleaned\<rparr>, ws))"

section \<open>Education in the pipeline: sections, fallback, reclassification, merge\<close>

text \<open>
  Step 7 of \<^verbatim>\<open>parse_lines_to_response\<close>. The section headers are found first: for
  each section type, the index of the last line that is a header of that type.
\<close>

fun last_section_idx :: "section_type \<Rightarrow> nat \<Rightarrow> line list \<Rightarrow> nat option \<Rightarrow> nat option" where
  "last_section_idx st idx [] found = found"
| "last_section_idx st idx ((locator, text) # later) found =
     last_section_idx st (Suc idx) later
       (if detect_section_type text = Some st then Some idx else found)"

definition edu_section_idx :: "line list \<Rightarrow> nat option" where
  "edu_section_idx lines = last_section_idx Education_section 0 lines None"

definition exp_section_idx :: "line list \<Rightarrow> nat option" where
  "exp_section_idx lines = last_section_idx Experience_section 0 lines None"

text \<open>The state of the education step: entries, evidence map, warnings.\<close>

type_synonym edu_state = "EducationEntry list \<times> evidence_map \<times> string list"

text \<open>\<^verbatim>\<open>for locator, text in entry_lines: add_ev(evidence_map, "education", locator, text)\<close>.\<close>

fun add_education_evidence :: "string \<Rightarrow> evidence_map \<Rightarrow> line list \<Rightarrow> py_error + evidence_map" where
  "add_education_evidence src ev [] = Inr ev"
| "add_education_evidence src ev ((locator, text) # later) =
     bind_err (add_ev src ev ''education'' locator text)
       (\<lambda>ev'. add_education_evidence src ev' later)"

text \<open>The explicit section: every block that classifies as education is parsed and kept
  when it has an institution or a degree.\<close>

definition section_entry :: "string \<Rightarrow> edu_state \<Rightarrow> line list \<Rightarrow> py_error + edu_state" where
  "section_entry src st entry_lines =
     (case st of (educations, ev, ws) \<Rightarrow>
        if classify_entry_as_education (map (\<lambda>(locator, text). strip text) entry_lines)
             (Some ''education'')
        then (case parse_education_entry entry_lines of
                (education_entry, edu_warnings) \<Rightarrow>
                  if truthy (institution education_entry) \<or> truthy (degree education_entry)
                  then bind_err (add_education_evidence src ev entry_lines)
                         (\<lambda>ev'. Inr (educations @ [education_entry], ev', ws @ edu_warnings))
                  else Inr st)
        else Inr st)"

fun section_entries :: "string \<Rightarrow> edu_state \<Rightarrow> line list list \<Rightarrow> py_error + edu_state" where
  "section_entries src st [] = Inr st"
| "section_entries src st (entry_lines # groups) =
     bind_err (section_entry src st entry_lines) (\<lambda>st'. section_entries src st' groups)"

text \<open>\<^verbatim>\<open>looks_like_education_line\<close> (line_parser.py).\<close>

definition looks_like_education_line :: "string \<Rightarrow> bool" where
  "looks_like_education_line line_text =
     (let line_lower = lower line_text
      in contains_any line_lower
           [''bachelor of'', ''bachelor's'', ''master of'', ''master's'', ''associate of'',
            ''associate's'', ''doctorate'', ''doctoral'', ''phd'', ''ph.d.'', ''b.s.'', ''b.a.'',
            ''m.s.'', ''m.a.'', ''m.b.a.'', ''graduate degree'', ''postgraduate''] \<or>
         contains_any line_lower
           [''university'', ''college'', ''institute'', ''academy'', ''high school'',
            ''secondary school'', ''prep school'', ''polytechnic'', ''school''] \<or>
         contains_any line_lower
           [''study abroad'', ''dis study'', ''isa study'', ''semester abroad'', ''year abroad''])"

text \<open>
  The fallback scan, when there is no education header: the lines before the experience
  section that start or continue an education block.
\<close>

fun fallback_scan :: "nat option \<Rightarrow> nat \<Rightarrow> bool \<Rightarrow> line list \<Rightarrow> line list" where
  "fallback_scan exp_idx idx in_education_block [] = []"
| "fallback_scan exp_idx idx in_education_block ((locator, text) # later) =
     (let t = strip text
      in if (case exp_idx of None \<Rightarrow> False | Some e \<Rightarrow> idx \<ge> e) then []
         else if t = [] then fallback_scan exp_idx (Suc idx) False later
         else if is_header_line text then fallback_scan exp_idx (Suc idx) False later
         else if looks_like_education_line t \<and> \<not> is_bullet t
         then (locator, text) # fallback_scan exp_idx (Suc idx) True later
         else if in_education_block
         then (locator, text) # fallback_scan exp_idx (Suc idx) True later
         else fallback_scan exp_idx (Suc idx) False later)"

definition fallback_entry :: "string \<Rightarrow> edu_state \<Rightarrow> line list \<Rightarrow> py_error + edu_state" where
  "fallback_entry src st current_group =
     (case st of (educations, ev, ws) \<Rightarrow>
        case parse_education_entry current_group of
          (entry, unused) \<Rightarrow>
            if truthy (institution entry) \<or> truthy (degree entry)
            then (if list_ex (\<lambda>existing. institution existing = institution entry \<and>
                                         degree existing = degree entry) educations
                  then Inr st
                  else bind_err (add_education_evidence src ev current_group)
                         (\<lambda>ev'. Inr (educations @ [entry], ev', ws)))
            else Inr st)"

fun fallback_groups :: "string \<Rightarrow> edu_state \<Rightarrow> line list \<Rightarrow> line list \<Rightarrow> py_error + edu_state" where
  "fallback_groups src st current_group [] =
     (if current_group \<noteq> [] then fallback_entry src st current_group else Inr st)"
| "fallback_groups src st current_group ((locator, text) # later) =
     (let t = strip text
      in if looks_like_education_line t \<and> \<not> is_bullet t \<and> current_group \<noteq> []
         then bind_err (fallback_entry src st current_group)
                (\<lambda>st'. fallback_groups src st' [(locator, text)] later)
         else fallback_groups src st (current_group @ [(locator, text)]) later)"

text \<open>Steps 7a to the fallback: the education entries parsed from the lines themselves.\<close>

definition parse_education_sections ::
  "string \<Rightarrow> line list \<Rightarrow> evidence_map \<Rightarrow> string list \<Rightarrow> py_error + edu_state" where
  "parse_education_sections src lines ev ws =
     bind_err (case edu_section_idx lines of
                 None \<Rightarrow> Inr ([], ev, ws)
               | Some i \<Rightarrow> section_entries src ([], ev, ws) (group_education_entries lines i))
       (\<lambda>(educations, ev1, ws1).
          let ws2 = (if edu_section_idx lines \<noteq> None \<and> educations = []
                     then ws1 @ [''EDUCATION header found but no education entries parsed'']
                     else ws1)
          in if educations = [] \<and> edu_section_idx lines = None
             then fallback_groups src (educations, ev1, ws2) []
                    (fallback_scan (exp_section_idx lines) 0 False lines)
             else Inr (educations, ev1, ws2))"

text \<open>
  The reclassification pass: \<^verbatim>\<open>looks_like_education_entry\<close>,
  \<^verbatim>\<open>convert_experience_to_education\<close> and \<^verbatim>\<open>split_experience_and_education\<close>. The
  conversion calls \<^verbatim>\<open>title.lower()\<close> on \<^verbatim>\<open>exp.get("job_title", "")\<close>, which is
  \<^verbatim>\<open>None\<close> when the entry has no job title: an \<^verbatim>\<open>AttributeError\<close>.
\<close>

definition looks_like_education_entry :: "Experience \<Rightarrow> bool" where
  "looks_like_education_entry exp_entry =
     (let text = lower (or_empty (company exp_entry)) @ '' '' @ lower (or_empty (job_title exp_entry))
                 @ '' '' @ lower (or_empty (exp_location exp_entry));
          has_degree = contains_any text
            [''bachelor'', ''master'', ''associate'', ''phd'', ''ph.d'', ''doctorate'', ''b.s.'',
             ''b.a.'', ''m.s.'', ''m.a.'', ''m.b.a.'', ''b.sc'', ''m.sc'', ''undergraduate'',
             ''graduate'', ''diploma''];
          has_institution = contains_any text
            [''university'', ''college'', ''institute'', ''academy'', ''high school'', ''school'',
             ''polytechnic''];
          has_study_abroad = contains_any text
            [''study abroad'', ''dis study'', ''isa study'', ''semester abroad'', ''exchange program'']
      in has_degree \<or> has_institution \<or> has_study_abroad)"

text \<open>\<^verbatim>\<open>s.replace(old, "")\<close> for a non-empty \<^verbatim>\<open>old\<close>.\<close>

fun remove_all :: "string \<Rightarrow> string \<Rightarrow> string" where
  "remove_all [] old = []"
| "remove_all (c # cs) old =
     (if list_starts_with (c # cs) old \<and> old \<noteq> []
      then remove_all (drop (length old) (c # cs)) old
      else c # remove_all cs old)"

definition convert_experience_to_education :: "Experience \<Rightarrow> py_error + EducationEntry" where
  "convert_experience_to_education exp_entry =
     (case job_title exp_entry of
        None \<Rightarrow> Inl AttributeError
      | Some title \<Rightarrow>
          let title_lower = lower title;
              is_degree =
                (contains_any title_lower [''bachelor'', ''b.s.'', ''b.a.'', ''b.sc''] \<or>
                 contains_any title_lower [''master'', ''m.s.'', ''m.a.'', ''m.b.a.'', ''m.sc''] \<or>
                 contains_any title_lower [''associate'', ''a.a.'', ''a.s.''] \<or>
                 contains_any title_lower [''ph.d'', ''phd'', ''doctorate''])
          in Inr \<lparr>institution = company exp_entry,
                  degree = (if is_degree then Some title else None),
                  field_of_study =
                    (if \<not> is_degree \<and> contains title_lower ''major''
                     then Some (strip (remove_all (remove_all title ''Major'') ''major''))
                     else None),
                  edu_location = exp_location exp_entry,
                  edu_start_date = start_date exp_entry,
                  edu_end_date = end_date exp_entry,
                  gpa = None,
                  details = achievements exp_entry\<rparr>)"

fun split_experience_and_education ::
  "Experience list \<Rightarrow> py_error + (Experience list \<times> EducationEntry list)" where
  "split_experience_and_education [] = Inr ([], [])"
| "split_experience_and_education (exp_entry # others) =
     (if looks_like_education_entry exp_entry
      then bind_err (convert_experience_to_education exp_entry)
             (\<lambda>edu_entry. bind_err (split_experience_and_education others)
                (\<lambda>(true_experiences, reclassified). Inr (true_experiences, edu_entry # reclassified)))
      else bind_err (split_experience_and_education others)
             (\<lambda>(true_experiences, reclassified). Inr (exp_entry # true_experiences, reclassified)))"

definition reclassify ::
  "EducationEntry list \<Rightarrow> Experience list \<Rightarrow> py_error + (Experience list \<times> EducationEntry list)" where
  "reclassify educations exps =
     (if educations = [] then split_experience_and_education exps else Inr (exps, []))"

text \<open>
  The merge: entries are deduplicated on (institution, degree), an entry without both
  is dropped, and of two entries with one key the one with more optional fields stays.
\<close>

definition edu_key :: "EducationEntry \<Rightarrow> string \<times> string" where
  "edu_key e = (or_empty (institution e), or_empty (degree e))"

definition edu_score :: "EducationEntry \<Rightarrow> nat" where
  "edu_score e =
     (if truthy (field_of_study e) then 1 else 0) + (if truthy (edu_start_date e) then 1 else 0) +
     (if truthy (edu_end_date e) then 1 else 0) + length (details e)"

text \<open>\<^verbatim>\<open>xs.index(x)\<close> raises \<^verbatim>\<open>ValueError\<close> when \<^verbatim>\<open>x\<close> is not in the list.\<close>

fun py_index :: "'a list \<Rightarrow> 'a \<Rightarrow> py_error + nat" where
  "py_index [] x = Inl ValueError"
| "py_index (y # ys) x = (if y = x then Inr 0 else bind_err (py_index ys x) (\<lambda>i. Inr (Suc i)))"

fun merge_education ::
  "(string \<times> string \<rightharpoonup> EducationEntry) \<Rightarrow> EducationEntry list \<Rightarrow> EducationEntry list \<Rightarrow>
   py_error + EducationEntry list" where
  "merge_education seen unique_education [] = Inr unique_education"
| "merge_education seen unique_education (edu # others) =
     (case seen (edu_key edu) of
        None \<Rightarrow>
          if truthy (institution edu) \<or> truthy (degree edu)
          then merge_education (seen(edu_key edu \<mapsto> edu)) (unique_education @ [edu]) others
          else merge_education seen unique_education others
      | Some existing \<Rightarrow>
          if edu_score edu > edu_score existing
          then bind_err (py_index unique_education existing)
                 (\<lambda>idx. merge_education (seen(edu_key edu \<mapsto> edu))
                          (unique_education[idx := edu]) others)
          else merge_education seen unique_education others)"

text \<open>
  From the reclassification to \<^verbatim>\<open>candidate.education\<close>: the experiences and the
  education entries of the response, and the warning when there is no education.
\<close>

definition reclassify_and_merge ::
  "EducationEntry list \<Rightarrow> Experience list \<Rightarrow> py_error + (Experience list \<times> EducationEntry list)" where
  "reclassify_and_merge educations exps =
     bind_err (reclassify educations exps)
       (\<lambda>(exps', reclassified_educations).
          bind_err (merge_education Map.empty [] (educations @ reclassified_educations))
            (\<lambda>unique_education. Inr (exps', unique_education)))"

definition education_step ::
  "string \<Rightarrow> line list \<Rightarrow> Experience list \<Rightarrow> evidence_map \<Rightarrow> string list \<Rightarrow>
   py_error + (Experience list \<times> EducationEntry list \<times> evidence_map \<times> string list)" where
  "education_step src lines exps ev ws =
     bind_err (parse_education_sections src lines ev ws)
       (\<lambda>(educations, ev1, ws1).
          bind_err (reclassify_and_merge educations exps)
            (\<lambda>(exps', unique_education).
               Inr (exps', unique_education, ev1,
                    if unique_education = []
                    then ws1 @ [''No education entries detected in resume''] else ws1)))"

text \<open>What the education step returns, and the entries parsed before the reclassification.\<close>

definition step_result ::
  "string \<Rightarrow> line list \<Rightarrow> Experience list \<Rightarrow> evidence_map \<Rightarrow> string list \<Rightarrow>
   (Experience list \<times> EducationEntry list) option" where
  "step_result src lines exps ev ws =
     (case education_step src lines exps ev ws of
        Inl e \<Rightarrow> None
      | Inr (exps', unique_education, ev', ws') \<Rightarrow> Some (exps', unique_education))"

definition parsed_educations ::
  "string \<Rightarrow> line list \<Rightarrow> evidence_map \<Rightarrow> string list \<Rightarrow> EducationEntry list option" where
  "parsed_educations src lines ev ws =
     (case parse_education_sections src lines ev ws of
        Inl e \<Rightarrow> None
      | Inr (educations, ev', ws') \<Rightarrow> Some educations)"

definition has_institution_or_degree :: "EducationEntry \<Rightarrow> bool" where
  "has_institution_or_degree e = (truthy (institution e) \<or> truthy (degree e))"

text \<open>Example inputs: two resumes and the experiences step 7b parses from them.\<close>

definition stanford_lecturer :: Experience where
  "stanford_lecturer =
     \<lparr>company = Some ''Stanford University'', job_title = Some ''Lecturer'', exp_location = None,
      start_date = None, end_date = None, company_description = None, job_description = None,
      achievements = []\<rparr>"

definition acme_engineer :: Experience where
  "acme_engineer =
     \<lparr>company = Some ''Acme Corp'', job_title = Some ''Engineer'', exp_location = None,
      start_date = None, end_date = None, company_description = None, job_description = None,
      achievements = []\<rparr>"

definition education_then_experience :: "line list" where
  "education_then_experience =
     [(''text:line:1'', ''EDUCATION''), (''text:line:2'', ''GONZAGA UNIVERSITY''),
      (''text:line:3'', ''Spokane, Washington''), (''text:line:4'', ''EXPERIENCE''),
      (''text:line:5'', ''Stanford University''), (''text:line:6'', ''Lecturer'')]"

definition experience_then_empty_education :: "line list" where
  "experience_then_empty_education =
     [(''text:line:1'', ''EXPERIENCE''), (''text:line:2'', ''Stanford University''),
      (''text:line:3'', ''Lecturer''), (''text:line:4'', ''EDUCATION'')]"

definition gonzaga_spokane :: EducationEntry where
  "gonzaga_spokane =
     \<lparr>institution = Some ''GONZAGA UNIVERSITY'', degree = None, field_of_study = None,
      edu_location = Some ''Spokane, Washington'', edu_start_date = None, edu_end_date = None,
      gpa = None, details = []\<rparr>"

definition stanford_as_education :: EducationEntry where
  "stanford_as_education =
     \<lparr>institution = Some ''Stanford University'', degree = None, field_of_study = None,
      edu_location = None, edu_start_date = None, edu_end_date = None, gpa = None, details = []\<rparr>"

lemma bind_err_Inr: "bind_err m f = Inr y \<Longrightarrow> \<exists>x. m = Inr x \<and> f x = Inr y"
  by (cases m) (simp_all add: bind_err_def)

lemma split_experience_filters:
  "split_experience_and_education exps = Inr (kept, reclassified) \<Longrightarrow>
   kept = filter (\<lambda>x. \<not> looks_like_education_entry x) exps"
proof (induction exps arbitrary: kept reclassified)
  case Nil
  then show ?case by simp
next
  case (Cons x xs)
  show ?case
  proof (cases "looks_like_education_entry x")
    case True
    with Cons.prems obtain edu_entry r where
      r: "split_experience_and_education xs = Inr r"
      and k: "(case r of (te, rc) \<Rightarrow> Inr (te, edu_entry # rc)) = Inr (kept, reclassified)"
      by (auto dest!: bind_err_Inr)
    obtain te rc where trc: "r = (te, rc)" by (cases r)
    with k have "te = kept" by simp
    with Cons.IH [of te rc] r trc True show ?thesis by simp
  next
    case False
    with Cons.prems obtain r where
      r: "split_experience_and_education xs = Inr r"
      and k: "(case r of (te, rc) \<Rightarrow> Inr (x # te, rc)) = Inr (kept, reclassified)"
      by (auto dest!: bind_err_Inr)
    obtain te rc where trc: "r = (te, rc)" by (cases r)
    with k have "kept = x # te" by simp
    with Cons.IH [of te rc] r trc False show ?thesis by simp
  qed
qed

lemma reclassify_result:
  "reclassify educations exps = Inr (exps', reclassified) \<Longrightarrow>
   exps' = (if educations = [] then filter (\<lambda>x. \<not> looks_like_education_entry x) exps else exps)"
  by (auto simp: reclassify_def dest: split_experience_filters)

lemma same_key_has_institution_or_degree:
  "edu_key e = edu_key e' \<Longrightarrow> has_institution_or_degree e' \<Longrightarrow> has_institution_or_degree e"
  by (auto simp: edu_key_def has_institution_or_degree_def truthy_def or_empty_def
           split: option.splits)

lemma merge_education_keeps_named:
  "merge_education seen unique_education edus = Inr result \<Longrightarrow>
   (\<And>k e. seen k = Some e \<Longrightarrow> edu_key e = k \<and> has_institution_or_degree e) \<Longrightarrow>
   (\<And>e. e \<in> set unique_education \<Longrightarrow> has_institution_or_degree e) \<Longrightarrow>
   e \<in> set result \<Longrightarrow> has_institution_or_degree e"
proof (induction edus arbitrary: seen unique_education)
  case Nil
  then show ?case by simp
next
  case (Cons edu others)
  show ?case
  proof (cases "seen (edu_key edu)")
    case None
    show ?thesis
    proof (cases "has_institution_or_degree edu")
      case True
      from Cons.prems(1) None True
      have m: "merge_education (seen(edu_key edu \<mapsto> edu)) (unique_education @ [edu]) others = Inr result"
        by (simp add: has_institution_or_degree_def)
      show ?thesis
      proof (rule Cons.IH [OF m _ _ Cons.prems(4)])
        fix k e' assume "(seen(edu_key edu \<mapsto> edu)) k = Some e'"
        then show "edu_key e' = k \<and> has_institution_or_degree e'"
          using True Cons.prems(2) by (auto split: if_splits)
      next
        fix e' assume "e' \<in> set (unique_education @ [edu])"
        then show "has_institution_or_degree e'"
          using True Cons.prems(3) by auto
      qed
    next
      case False
      from Cons.prems(1) None False
      have m: "merge_education seen unique_education others = Inr result"
        by (simp add: has_institution_or_degree_def)
      show ?thesis
        by (rule Cons.IH [OF m Cons.prems(2) Cons.prems(3) Cons.prems(4)])
    qed
  next
    case (Some existing)
    from Cons.prems(2) [OF Some]
    have ex: "edu_key existing = edu_key edu" "has_institution_or_degree existing" by simp_all
    have named: "has_institution_or_degree edu"
      by (rule same_key_has_institution_or_degree [OF ex(1) [symmetric] ex(2)])
    show ?thesis
    proof (cases "edu_score edu > edu_score existing")
      case True
      with Cons.prems(1) Some obtain idx where
        m: "merge_education (seen(edu_key edu \<mapsto> edu)) (unique_education[idx := edu]) others = Inr result"
        by (auto dest!: bind_err_Inr)
      show ?thesis
      proof (rule Cons.IH [OF m _ _ Cons.prems(4)])
        fix k e' assume "(seen(edu_key edu \<mapsto> edu)) k = Some e'"
        then show "edu_key e' = k \<and> has_institution_or_degree e'"
          using named Cons.prems(2) by (auto split: if_splits)
      next
        fix e' assume "e' \<in> set (unique_education[idx := edu])"
        then have "e' = edu \<or> e' \<in> set unique_education"
          using set_update_subset_insert [of unique_education idx edu] by auto
        then show "has_institution_or_degree e'"
          using named Cons.prems(3) by auto
      qed
    next
      case False
      with Cons.prems(1) Some
      have m: "merge_education seen unique_education others = Inr result" by simp
      show ?thesis
        by (rule Cons.IH [OF m Cons.prems(2) Cons.prems(3) Cons.prems(4)])
    qed
  qed
qed

lemma bind_err_Inr_iff: "bind_err m f = Inr y \<longleftrightarrow> (\<exists>x. m = Inr x \<and> f x = Inr y)"
  by (cases m) (simp_all add: bind_err_def)

lemma reclassify_and_merge_result:
  assumes "reclassify_and_merge educations exps = Inr (exps', edus')"
  shows "exps' = (if educations = [] then filter (\<lambda>x. \<not> looks_like_education_entry x) exps else exps)"
    and "e \<in> set edus' \<Longrightarrow> has_institution_or_degree e"
proof -
  from assms obtain rc where r: "reclassify educations exps = Inr (exps', rc)"
    and m: "merge_education Map.empty [] (educations @ rc) = Inr edus'"
    by (auto simp: reclassify_and_merge_def bind_err_Inr_iff split: prod.splits)
  from reclassify_result [OF r]
  show "exps' = (if educations = [] then filter (\<lambda>x. \<not> looks_like_education_entry x) exps else exps)" .
  show "e \<in> set edus' \<Longrightarrow> has_institution_or_degree e"
    using merge_education_keeps_named [OF m, of e] by simp
qed

lemma education_step_parts:
  assumes "step_result src lines exps ev ws = Some (exps', edus')"
  shows "\<exists>educations. parsed_educations src lines ev ws = Some educations \<and>
           reclassify_and_merge educations exps = Inr (exps', edus')"
proof -
  from assms obtain ev' ws' where
    s: "education_step src lines exps ev ws = Inr (exps', edus', ev', ws')"
    unfolding step_result_def by (auto split: sum.splits)
  then obtain educations ev1 ws1 where
    p: "parse_education_sections src lines ev ws = Inr (educations, ev1, ws1)"
    and r: "reclassify_and_merge educations exps = Inr (exps', edus')"
    by (auto simp: education_step_def bind_err_Inr_iff split: prod.splits)
  then show ?thesis by (simp add: parsed_educations_def)
qed

text \<open>The two example resumes, evaluated.\<close>

lemma education_then_experience_step:
  "step_result ''user'' education_then_experience [stanford_lecturer] Map.empty [] =
     Some ([stanford_lecturer], [gonzaga_spokane])"
  by code_simp

lemma education_then_experience_parsed:
  "parsed_educations ''user'' education_then_experience Map.empty [] = Some [gonzaga_spokane]"
  by code_simp

lemma experience_then_empty_education_step:
  "step_result ''user'' experience_then_empty_education [stanford_lecturer] Map.empty [] =
     Some ([], [stanford_as_education])"
  by code_simp



lemma experience_then_empty_education_header:
  "edu_section_idx experience_then_empty_education = Some 3"
  by code_simp


lemma acme_engineer_is_experience: "\<not> looks_like_education_entry acme_engineer"
  by code_simp




text \<open>
  Claim C2, as stated, fails: the lines have an EDUCATION header, it yields no entry,
  and the reclassification runs and moves the experience away.
\<close>

theorem reclassification_with_header_counterexample:
  "edu_section_idx experience_then_empty_education = Some 3 \<and>
   step_result ''user'' experience_then_empty_education [stanford_lecturer] Map.empty [] =
     Some ([], [stanford_as_education])"
  using experience_then_empty_education_header experience_then_empty_education_step by simp

text \<open>
  Claim C2, amended. The reclassification runs exactly when the lines gave no
  education entry, by the explicit section or by the fallback scan: then the
  experiences with a strong education keyword are taken out; when at least one
  education entry was parsed, the experiences of the response are the parsed ones,
  unmodified.
\<close>

theorem reclassification_only_without_parsed_education:
  assumes "step_result src lines exps ev ws = Some (exps', edus')"
    and "parsed_educations src lines ev ws = Some educations"
  shows "exps' = (if educations = [] then filter (\<lambda>x. \<not> looks_like_education_entry x) exps
                  else exps)"
proof -
  from education_step_parts [OF assms(1)] assms(2)
  have "reclassify_and_merge educations exps = Inr (exps', edus')" by auto
  from reclassify_and_merge_result(1) [OF this] show ?thesis .
qed

theorem reclassification_only_without_parsed_education_witness:
  "step_result ''user'' education_then_experience [stanford_lecturer] Map.empty [] =
     Some ([stanford_lecturer], [gonzaga_spokane]) \<and>
   parsed_educations ''user'' education_then_experience Map.empty [] = Some [gonzaga_spokane] \<and>
   [gonzaga_spokane] \<noteq> []"
  using reclassification_only_without_parsed_education
          [OF education_then_experience_step education_then_experience_parsed]
    education_then_experience_step education_then_experience_parsed
  by simp

subsection \<open>Bullet lines in the education grouper\<close>

definition newspaper_resume :: "line list" where
  "newspaper_resume =
     [(''text:line:1'', ''EDUCATION''), (''text:line:2'', ''GONZAGA UNIVERSITY''),
      (''text:line:3'', ''- Editor of the university newspaper'')]"

text \<open>
  Claim C3 says that no block of the experience grouper or of the education grouper
  starts with a bullet line. The education grouper tests the institution keywords
  before anything else, with no bullet guard: the bullet line
  ``- Editor of the university newspaper'' closes the block of GONZAGA UNIVERSITY and
  starts a block of its own.
\<close>

theorem education_block_starts_with_bullet:
  "group_education_entries newspaper_resume 0 =
     [[(''text:line:2'', ''GONZAGA UNIVERSITY'')],
      [(''text:line:3'', ''- Editor of the university newspaper'')]] \<and>
   is_bullet (strip ''- Editor of the university newspaper'')"
  by code_simp

subsection \<open>The Gonzaga entry\<close>

definition gonzaga_resume :: "line list" where
  "gonzaga_resume =
     [(''text:line:1'', ''EDUCATION''), (''text:line:2'', ''GONZAGA UNIVERSITY''),
      (''text:line:3'', ''Spokane, Washington''),
      (''text:line:4'', ''2012 '' @ en_dash @ '' 2016''),
      (''text:line:5'', ''Bachelor of Science in Communication Studies''),
      (''text:line:6'', bullet_black @ '' Applied Communications Major: Social Media/Marketing'')]"

text \<open>
  Claim C5 expects, for the Gonzaga block under an EDUCATION header, the degree
  ``Bachelor of Science'' and the field of study ``Communication Studies''. The entry
  parser first removes every single space between two lowercase letters, so the degree
  line becomes ``Bachelorof Sciencein Communication Studies'': the degree found is
  ``Bachelor'', no field of study is found, and the joined line lands in the details.
\<close>

theorem gonzaga_entry_degree_and_field:
  "normalize_pdf_wordbreaks ''Bachelor of Science in Communication Studies'' =
     ''Bachelorof Sciencein Communication Studies'' \<and>
   parsed_educations ''user'' gonzaga_resume Map.empty [] =
     Some [\<lparr>institution = Some ''GONZAGA UNIVERSITY'', degree = Some ''Bachelor'',
            field_of_study = None, edu_location = Some ''Spokane, Washington'',
            edu_start_date = Some ''2012'', edu_end_date = Some ''2016'', gpa = None,
            details = [''Bachelorof Sciencein Communication Studies'',
                       ''Applied Communications Major: Social Media/Marketing'']\<rparr>]"
  by code_simp

section \<open>Location and its evidence\<close>

text \<open>
  Step 3 of \<^verbatim>\<open>parse_lines_to_response\<close>: \<^verbatim>\<open>maybe_set_location\<close> over the first 15
  lines. The state is the location of the candidate and the evidence map. The line is
  matched in its search-normalised form, and the evidence recorded is the formatted
  location, not the text of the line.
\<close>

definition LOCATION_RE :: rx where
  "LOCATION_RE =
     Seq [Bol, Plus (Set [Upper, Lower, C CHR '' '', C CHR ''.'', C (CHR 0x27), C CHR ''-'']),
          Ch CHR '','', Star (Set [Sp]), Rep (Set [Upper, Lower]) 2 None, Eol]"

definition maybe_set_location ::
  "string \<Rightarrow> string option \<times> evidence_map \<Rightarrow> line \<Rightarrow> py_error + (string option \<times> evidence_map)" where
  "maybe_set_location src st source_line =
     (case st of (candidate_location, ev) \<Rightarrow>
      case source_line of (locator, text) \<Rightarrow>
        if truthy candidate_location then Inr st
        else let t = normalize_for_search text
             in if py_len t > 200 then Inr st
                else if is_header_line t then Inr st
                else let location_text = extract_location_from_line t;
                         m = re_match False LOCATION_RE t
                     in if m \<noteq> None \<or> truthy location_text
                        then let matched_text = (if truthy location_text then or_empty location_text
                                                 else case m of Some (ms, whole) \<Rightarrow> whole
                                                              | None \<Rightarrow> []);
                                 formatted_evidence = format_location matched_text
                             in bind_err (add_ev src ev ''location'' locator formatted_evidence)
                                  (\<lambda>ev'. Inr (Some (format_location matched_text), ev'))
                        else Inr st)"

fun set_location_loop ::
  "string \<Rightarrow> string option \<times> evidence_map \<Rightarrow> line list \<Rightarrow> py_error + (string option \<times> evidence_map)" where
  "set_location_loop src st [] = Inr st"
| "set_location_loop src st (source_line # later) =
     bind_err (maybe_set_location src st source_line) (\<lambda>st'. set_location_loop src st' later)"

definition location_step ::
  "string \<Rightarrow> line list \<Rightarrow> evidence_map \<Rightarrow> py_error + (string option \<times> evidence_map)" where
  "location_step src lines ev = set_location_loop src (None, ev) (take 15 lines)"

text \<open>The location found and the texts of its evidence.\<close>

definition location_evidence :: "string \<Rightarrow> line list \<Rightarrow> (string option \<times> string list) option" where
  "location_evidence src lines =
     (case location_step src lines Map.empty of
        Inl e \<Rightarrow> None
      | Inr (candidate_location, ev) \<Rightarrow>
          Some (candidate_location, map ev_text (dict_get ev ''location'' [])))"

text \<open>The text without its whitespace, to compare two texts up to spacing.\<close>

definition unspaced :: "string \<Rightarrow> string" where
  "unspaced s = filter (\<lambda>c. \<not> is_space c) s"

definition glued_location_line :: line where
  "glued_location_line = (''pdf:page:1:line:1'', ''NewYork,NewYork'')"

definition dashed_location_line :: line where
  "dashed_location_line = (''pdf:page:1:line:1'', ''Austin, -TX'')"

text \<open>
  Claim C6 says that the evidence of full_name, email, phone and location is a verbatim
  substring of a source line. For the first three \<^verbatim>\<open>add_ev\<close> receives the text of the
  line. For the location it receives the location rebuilt from the search-normalised
  line: on the line ``NewYork,NewYork'' the evidence is ``New York, New York'', which is
  not part of the line; on ``Austin, -TX'' the evidence is ``Austin, TX'', which is not
  part of the line even when all whitespace is ignored.
\<close>

theorem location_evidence_is_not_source_text:
  "location_evidence ''pdf'' [glued_location_line] =
     Some (Some ''New York, New York'', [''New York, New York'']) \<and>
   \<not> contains (snd glued_location_line) ''New York, New York'' \<and>
   location_evidence ''pdf'' [dashed_location_line] =
     Some (Some ''Austin, TX'', [''Austin, TX'']) \<and>
   \<not> contains (unspaced (snd dashed_location_line)) (unspaced ''Austin, TX'')"
  by code_simp

section \<open>Achievement repair\<close>































section \<open>Word segmentation\<close>

text \<open>The dictionary \<^verbatim>\<open>COMMON_WORDS\<close> of line_parser.py, in the order of the set literal.\<close>

definition COMMON_WORDS :: "string list" where
  "COMMON_WORDS =
     [''the'', ''a'', ''and'', ''to'', ''of'', ''in'', ''for'', ''is'', ''was'', ''on'',
      ''with'', ''by'', ''from'', ''as'', ''at'', ''be'', ''been'', ''that'', ''this'', ''it'',
      ''which'', ''who'', ''or'', ''an'', ''have'', ''has'', ''had'', ''are'', ''were'',
      ''new'', ''large'', ''back'', ''key'', ''account'', ''manager'', ''leader'', ''team'',
      ''sales'', ''customer'', ''territory'', ''grew'', ''growth'', ''won'', ''selected'',
      ''opened'', ''acquired'', ''finished'', ''performed'', ''transferred'', ''outperformed'',
      ''percent'', ''plan'', ''business'', ''year'', ''month'', ''due'', ''to'', ''leading'',
      ''over'', ''goals'', ''while'', ''always'', ''maintaining'', ''positive'', ''volunteer'',
      ''group'', ''girls'', ''boys'', ''teaching'', ''encouraging'', ''strong'', ''smart'',
      ''bold'', ''blitz'', ''expansion'', ''relations'', ''set'', ''tone'', ''overall'',
      ''atmosphere'', ''can'', ''do'', ''attitude'', ''case'', ''coast'', ''person'', ''june'',
      ''q'', ''west'', ''several'', ''national'', ''major'', ''downtown'', ''near'',
      ''relationship'', ''through'', ''develop'', ''improve'', ''increase'', ''decrease'',
      ''change'', ''led'', ''lead'', ''create'', ''created'', ''develop'', ''delivery'',
      ''managed'', ''manage'', ''led'', ''lead'', ''up'', ''down'', ''new'', ''implemented'',
      ''implement'', ''provide'', ''provided'', ''business'', ''process'', ''system'',
      ''quality'', ''customer'', ''service'', ''support'', ''training'', ''develop'',
      ''staff'', ''office'', ''regional'', ''company'', ''corporation'', ''division'',
      ''department'', ''responsible'', ''responsibilities'', ''achievement'', ''achievements'',
      ''accomplishment'', ''results'', ''result'', ''success'', ''successful'',
      ''successfully'', ''recognition'', ''award'', ''awards'', ''promoted'', ''promotion'',
      ''increase'', ''increased'', ''growth'', ''expand'', ''partnership'', ''partner'',
      ''collaborate'', ''collaboration'', ''initiative'', ''strategic'', ''strategy'',
      ''market'', ''marketing'', ''sales'', ''revenue'', ''profit'', ''efficiency'',
      ''effective'', ''effectiveness'', ''productivity'', ''product'', ''production'',
      ''quality'', ''implementation'', ''implemented'', ''launch'', ''launched'',
      ''innovation'', ''innovative'', ''technology'', ''technical'', ''operational'',
      ''operations'', ''logistics'', ''supply'', ''chain'', ''sourcing'', ''procurement'',
      ''vendor'', ''suppliers'', ''client'', ''clients'', ''prospecting'', ''pipeline'',
      ''closing'', ''negotiation'', ''negotiated'', ''contract'', ''proposal'', ''proposals'',
      ''presentations'', ''presentation'', ''training'', ''trained'', ''coaching'',
      ''mentoring'', ''mentored'', ''development'', ''developed'', ''improved'', ''reduced'',
      ''reduction'', ''optimized'', ''optimization'', ''streamlined'', ''streamline'',
      ''automated'', ''automation'', ''platform'', ''solution'', ''solutions'',
      ''integration'', ''integrated'', ''scaling'', ''scaled'', ''migration'', ''migrated'',
      ''modernization'', ''infrastructure'', ''deployment'', ''deployed'', ''maintenance'',
      ''support'', ''troubleshooting'', ''problem'', ''solving'', ''resolution'', ''incident'',
      ''security'', ''compliance'', ''risk'', ''management'', ''project'', ''program'',
      ''portfolio'', ''governance'', ''stakeholder'', ''stakeholders'', ''communication'',
      ''communication'', ''reporting'', ''analysis'', ''analytical'', ''datadriven'',
      ''metrics'', ''kpi'', ''kpis'', ''benchmark'', ''benchmarking'', ''forecast'',
      ''forecasting'', ''budget'', ''budgeting'', ''financial'', ''profitability'', ''roe'',
      ''roi'', ''valuation'', ''return'', ''investment'', ''capital'', ''funding'',
      ''investor'', ''venture'', ''startup'', ''scalable'', ''scalability'', ''sustainable'',
      ''sustainability'', ''corporate'', ''enterprise'', ''b2b'', ''b2c'', ''saas'', ''cloud'',
      ''on'', ''premise'', ''hybrid'', ''mobile'', ''web'', ''desktop'', ''application'',
      ''applications'', ''api'', ''apis'', ''database'', ''databases'', ''storage'',
      ''server'', ''servers'', ''network'', ''networking'', ''cloud'', ''aws'', ''azure'',
      ''gcp'', ''docker'', ''kubernetes'', ''agile'', ''scrum'', ''kanban'', ''devops'',
      ''ci'', ''cd'', ''testing'', ''test'', ''qa'', ''quality'', ''assurance'', ''ux'',
      ''ui'', ''design'', ''designer'', ''frontend'', ''backend'', ''fullstack'',
      ''architect'', ''architecture'', ''microservices'', ''january'', ''february'', ''march'',
      ''april'', ''may'', ''june'', ''july'', ''august'', ''september'', ''october'',
      ''november'', ''december'', ''diego'', ''francisco'', ''angeles'', ''york'', ''chicago'',
      ''denver'', ''denver'', ''boston'', ''atlanta'', ''seattle'', ''austin'', ''diego'',
      ''diego'', ''kick'', ''start'', ''kickstart'', ''grew'', ''grow'', ''achieved'',
      ''achieve'']"









text \<open>
  \<^verbatim>\<open>_segment_lowercase_word\<close>. Its two inner functions are recursive. The interpreter
  allows a bounded number of nested calls and raises \<^verbatim>\<open>RecursionError\<close> at the next
  one: \<open>frames\<close> is the number of nested calls still allowed. The dictionary \<^verbatim>\<open>memo\<close>
  is passed through the calls.
\<close>

type_synonym memo = "nat \<rightharpoonup> string list"


text \<open>\<^verbatim>\<open>can_segment_conservative\<close> (words of 11 to 15 characters), with its depth cap of 50,
  and its loop over \<^verbatim>\<open>range(max(0, idx - 12), idx)\<close>.\<close>

function can_segment_conservative ::
    "nat \<Rightarrow> string \<Rightarrow> memo \<Rightarrow> nat \<Rightarrow> nat \<Rightarrow> py_error + (string list option \<times> memo)"
  and conservative_starts ::
    "nat \<Rightarrow> string \<Rightarrow> memo \<Rightarrow> nat \<Rightarrow> nat \<Rightarrow> nat list \<Rightarrow> py_error + (string list option \<times> memo)"
where
  "can_segment_conservative 0 word memo idx depth = Inl RecursionError"
| "can_segment_conservative (Suc frames) word memo idx depth =
     (if depth > 50 then Inr (None, memo)
      else case memo idx of
             Some segmentation \<Rightarrow> Inr (Some segmentation, memo)
           | None \<Rightarrow>
               if idx = 0 then Inr (Some [], memo)
               else conservative_starts frames word memo idx depth [idx - 12..<idx])"
| "conservative_starts frames word memo idx depth [] = Inr (None, memo)"
| "conservative_starts frames word memo idx depth (start # later) =
     (let candidate = py_slice word start idx
      in if candidate \<in> set COMMON_WORDS
         then bind_err (can_segment_conservative frames word memo start (depth + 1))
                (\<lambda>(prev, memo').
                   case prev of
                     Some p \<Rightarrow> Inr (Some (p @ [candidate]), memo'(idx \<mapsto> p @ [candidate]))
                   | None \<Rightarrow> conservative_starts frames word memo' idx depth later)
         else conservative_starts frames word memo idx depth later)"
  by pat_completeness auto
termination
  by (relation "measures
        [\<lambda>x. case x of Inl (frames, word, memo, idx, depth) \<Rightarrow> 2 * frames
                      | Inr (frames, word, memo, idx, depth, starts) \<Rightarrow> 2 * frames + 1,
         \<lambda>x. case x of Inl (frames, word, memo, idx, depth) \<Rightarrow> 0
                      | Inr (frames, word, memo, idx, depth, starts) \<Rightarrow> length starts]")
     auto



text \<open>
  The capped recursion stays within its cap: 52 nested calls are always enough for
  \<^verbatim>\<open>can_segment_conservative\<close>, whatever the word.
\<close>

lemma conservative_starts_return:
  assumes "\<And>memo start. \<exists>r. can_segment_conservative frames word memo start (depth + 1) = Inr r"
  shows "\<exists>r. conservative_starts frames word memo idx depth starts = Inr r"
proof (induction starts arbitrary: memo)
  case Nil
  show ?case by simp
next
  case (Cons start later)
  show ?case
  proof (cases "py_slice word start idx \<in> set COMMON_WORDS")
    case False
    with Cons [of memo] show ?thesis by (simp add: Let_def)
  next
    case True
    from assms [of memo start] obtain prev memo' where
      r: "can_segment_conservative frames word memo start (depth + 1) = Inr (prev, memo')"
      by auto
    show ?thesis
    proof (cases prev)
      case (Some p)
      with r True show ?thesis by (simp add: Let_def bind_err_def)
    next
      case None
      with r True Cons [of memo'] show ?thesis by (simp add: Let_def bind_err_def)
    qed
  qed
qed

lemma conservative_within_cap:
  "51 - depth < frames \<Longrightarrow>
     \<exists>r. can_segment_conservative frames word memo idx depth = Inr r"
proof (induction frames arbitrary: memo idx depth)
  case 0
  then show ?case by simp
next
  case (Suc frames)
  show ?case
  proof (cases "depth > 50")
    case True
    then show ?thesis by simp
  next
    case False
    with Suc.prems have "51 - (depth + 1) < frames" by simp
    then have "\<And>memo start. \<exists>r. can_segment_conservative frames word memo start (depth + 1) = Inr r"
      by (rule Suc.IH)
    then have "\<exists>r. conservative_starts frames word memo idx depth [idx - 12..<idx] = Inr r"
      by (rule conservative_starts_return)
    with False show ?thesis by (auto split: option.splits)
  qed
qed






















end
